theory Spec2Isabelle
  imports Complex_Main
begin

section \<open>Python values and their text\<close>

text \<open>
  The values that \<^verbatim>\<open>response.json()\<close> returns and that \<^verbatim>\<open>validate_input\<close> receives:
  None, booleans, integers, floats, strings, lists and dictionaries with string keys.
  A dictionary is an association list in insertion order. The code under study never
  computes with a float, it can only print one, so a float is carried by its \<^verbatim>\<open>repr\<close>.
  A string is a list of code points below 256.
\<close>

datatype py_value =
    PyNone
  | PyBool bool
  | PyInt int
  | PyFloat string
  | PyStr string
  | PyList "py_value list"
  | PyDict "(string \<times> py_value) list"

definition digit_char :: "nat \<Rightarrow> char" where
  "digit_char d = ''0123456789abcdef'' ! d"

function show_nat :: "nat \<Rightarrow> string" where
  "show_nat n = (if n < 10 then [digit_char n] else show_nat (n div 10) @ [digit_char (n mod 10)])"
  by pat_completeness auto
termination
  by (relation "measure id") auto

declare show_nat.simps [simp del]

text \<open>\<^verbatim>\<open>str(i)\<close> of an integer: decimal digits, with a minus sign when negative.\<close>

definition show_int :: "int \<Rightarrow> string" where
  "show_int i = (if i < 0 then CHR ''-'' # show_nat (nat (- i)) else show_nat (nat i))"

text \<open>
  \<^verbatim>\<open>repr(s)\<close> of a string: single quotes, unless the string holds a single quote and no
  double quote; the quote and the backslash are escaped, tab, newline and carriage
  return are written \<^verbatim>\<open>\t \n \r\<close>, and every other non-printable code point as
  \<^verbatim>\<open>\xhh\<close>.
\<close>

definition printable :: "char \<Rightarrow> bool" where
  "printable c =
     (let n = (of_char c :: nat)
      in \<not> (n < 32 \<or> n = 127 \<or> (128 \<le> n \<and> n \<le> 160) \<or> n = 173))"

definition repr_char :: "char \<Rightarrow> char \<Rightarrow> string" where
  "repr_char quote c =
     (if c = quote \<or> c = CHR 0x5C then [CHR 0x5C, c]
      else if c = CHR 0x09 then [CHR 0x5C, CHR ''t'']
      else if c = CHR 0x0A then [CHR 0x5C, CHR ''n'']
      else if c = CHR 0x0D then [CHR 0x5C, CHR ''r'']
      else if \<not> printable c then
        [CHR 0x5C, CHR ''x'', digit_char (of_char c div 16), digit_char (of_char c mod 16)]
      else [c])"

definition py_repr_str :: "string \<Rightarrow> string" where
  "py_repr_str s =
     (let quote = (if CHR 0x27 \<in> set s \<and> CHR 0x22 \<notin> set s then CHR 0x22 else CHR 0x27)
      in quote # concat (map (repr_char quote) s) @ [quote])"

fun join :: "string \<Rightarrow> string list \<Rightarrow> string" where
  "join sep [] = []"
| "join sep [x] = x"
| "join sep (x # y # ys) = x @ sep @ join sep (y # ys)"

fun py_repr :: "py_value \<Rightarrow> string" where
  "py_repr PyNone = ''None''"
| "py_repr (PyBool b) = (if b then ''True'' else ''False'')"
| "py_repr (PyInt i) = show_int i"
| "py_repr (PyFloat r) = r"
| "py_repr (PyStr s) = py_repr_str s"
| "py_repr (PyList xs) = ''['' @ join '', '' (map py_repr xs) @ '']''"
| "py_repr (PyDict kvs) =
     ''{'' @ join '', '' (map (\<lambda>(k, v). py_repr_str k @ '': '' @ py_repr v) kvs) @ ''}''"

text \<open>
  What an f-string writes for a value, \<^verbatim>\<open>str(v)\<close>: a string as it is, anything else
  as its \<^verbatim>\<open>repr\<close>.
\<close>

fun py_str :: "py_value \<Rightarrow> string" where
  "py_str (PyStr s) = s"
| "py_str v = py_repr v"

section \<open>Exceptions\<close>

text \<open>
  The exception classes the module defines (\<^verbatim>\<open>APIError\<close> and its four subclasses),
  the ones it imports from \<^verbatim>\<open>requests.exceptions\<close> (\<^verbatim>\<open>ConnectionError\<close> here is the
  class of \<^verbatim>\<open>requests\<close>, which the import puts in place of the builtin of that name)
  with the two standard subclasses of \<^verbatim>\<open>Timeout\<close>, the builtin classes that the
  modelled code can raise, and \<^verbatim>\<open>RetryError\<close> of \<^verbatim>\<open>tenacity\<close>.
\<close>

datatype exc_class =
    Exception
  | ValueError
  | TypeError
  | OverflowError
  | KeyError
  | JSONDecodeError
  | RequestException
  | HTTPError
  | ConnectionError
  | Timeout
  | ConnectTimeout
  | ReadTimeout
  | APIError
  | AuthenticationError
  | RateLimitError
  | ValidationError
  | RetryableError
  | RetryError

text \<open>The classes of the model that a class is a subclass of, itself first.\<close>

fun superclasses :: "exc_class \<Rightarrow> exc_class list" where
  "superclasses Exception = [Exception]"
| "superclasses ValueError = [ValueError, Exception]"
| "superclasses TypeError = [TypeError, Exception]"
| "superclasses OverflowError = [OverflowError, Exception]"
| "superclasses KeyError = [KeyError, Exception]"
| "superclasses JSONDecodeError = [JSONDecodeError, ValueError, Exception]"
| "superclasses RequestException = [RequestException, Exception]"
| "superclasses HTTPError = [HTTPError, RequestException, Exception]"
| "superclasses ConnectionError = [ConnectionError, RequestException, Exception]"
| "superclasses Timeout = [Timeout, RequestException, Exception]"
| "superclasses ConnectTimeout =
     [ConnectTimeout, ConnectionError, Timeout, RequestException, Exception]"
| "superclasses ReadTimeout = [ReadTimeout, Timeout, RequestException, Exception]"
| "superclasses APIError = [APIError, Exception]"
| "superclasses AuthenticationError = [AuthenticationError, APIError, Exception]"
| "superclasses RateLimitError = [RateLimitError, APIError, Exception]"
| "superclasses ValidationError = [ValidationError, APIError, Exception]"
| "superclasses RetryableError = [RetryableError, APIError, Exception]"
| "superclasses RetryError = [RetryError, Exception]"

text \<open>
  An exception object. \<open>APIExc\<close> is an instance of \<^verbatim>\<open>APIError\<close> or of a subclass, with
  the three attributes its constructor stores (\<^verbatim>\<open>message\<close>, \<^verbatim>\<open>status_code\<close>,
  \<^verbatim>\<open>response\<close>, the last two None by default). \<open>ExtExc\<close> is an exception that reaches
  the module from outside (the wrapped operation, the transport), with its text.
  \<open>Raised\<close> is an exception raised by the interpreter or a library call inside the
  modelled functions, whose text is not modelled. \<open>RetryExc\<close> is the \<^verbatim>\<open>RetryError\<close> of
  \<^verbatim>\<open>tenacity\<close>, which holds the exception of the last attempt.
\<close>

datatype exc =
    APIExc exc_class string "int option" "py_value option"
  | ExtExc exc_class string
  | Raised exc_class
  | RetryExc exc

fun class_of :: "exc \<Rightarrow> exc_class" where
  "class_of (APIExc c m sc r) = c"
| "class_of (ExtExc c m) = c"
| "class_of (Raised c) = c"
| "class_of (RetryExc e) = RetryError"

definition isinstance :: "exc \<Rightarrow> exc_class \<Rightarrow> bool" where
  "isinstance e c = (c \<in> set (superclasses (class_of e)))"

fun exc_status_code :: "exc \<Rightarrow> int option" where
  "exc_status_code (APIExc c m sc r) = sc"
| "exc_status_code e = None"

fun exc_message :: "exc \<Rightarrow> string option" where
  "exc_message (APIExc c m sc r) = Some m"
| "exc_message (ExtExc c m) = Some m"
| "exc_message e = None"

fun exc_response :: "exc \<Rightarrow> py_value option" where
  "exc_response (APIExc c m sc r) = r"
| "exc_response e = None"

section \<open>The input validator\<close>

text \<open>
  \<^verbatim>\<open>validate_input(data, required_fields, data_type)\<close>: a value that is not a dictionary
  is refused; otherwise the required fields that are not keys of the dictionary are
  collected in order, and a non-empty collection is refused with a message that ends
  with the \<^verbatim>\<open>repr\<close> of that list. \<open>Inr ()\<close> is the return of None.
\<close>

definition validate_input :: "py_value \<Rightarrow> string list \<Rightarrow> string \<Rightarrow> exc + unit" where
  "validate_input data required_fields data_type =
     (case data of
        PyDict kvs \<Rightarrow>
          (let missing_fields = filter (\<lambda>field. field \<notin> set (map fst kvs)) required_fields
           in if missing_fields \<noteq> [] then
                Inl (APIExc ValidationError
                       (''Missing required fields in '' @ data_type @ '': ''
                          @ py_repr (PyList (map PyStr missing_fields)))
                       None None)
              else Inr ())
      | _ \<Rightarrow> Inl (APIExc ValidationError (data_type @ '' must be a dictionary'') None None))"

section \<open>HTTP responses\<close>

text \<open>
  What the module reads of a \<^verbatim>\<open>requests.Response\<close>: the status code, the body text
  (\<^verbatim>\<open>response.text\<close>), the outcome of \<^verbatim>\<open>response.json()\<close> (None when the body is not
  JSON and the call raises a decoding error, which is a \<^verbatim>\<open>ValueError\<close>), and the
  headers, a list of names and values.
\<close>

record response =
  status_code :: int
  resp_text :: string
  json :: "py_value option"
  headers :: "(string \<times> string) list"

text \<open>
  \<^verbatim>\<open>response.headers.get(name)\<close>: the headers of a response compare names without
  regard to case; None when the header is absent.
\<close>

definition lower_char :: "char \<Rightarrow> char" where
  "lower_char c =
     (let n = (of_char c :: nat)
      in if (65 \<le> n \<and> n \<le> 90) \<or> (192 \<le> n \<and> n \<le> 222 \<and> n \<noteq> 215) then char_of (n + 32)
         else c)"

definition headers_get :: "(string \<times> string) list \<Rightarrow> string \<Rightarrow> string option" where
  "headers_get hs name =
     map_of (map (\<lambda>(k, v). (map lower_char k, v)) hs) (map lower_char name)"

definition response_json :: "response \<Rightarrow> exc + py_value" where
  "response_json r = (case json r of None \<Rightarrow> Inl (Raised JSONDecodeError) | Some v \<Rightarrow> Inr v)"

fun starts_with :: "string \<Rightarrow> string \<Rightarrow> bool" where
  "starts_with [] s = True"
| "starts_with (p # ps) [] = False"
| "starts_with (p # ps) (c # cs) = (p = c \<and> starts_with ps cs)"

fun contains_str :: "string \<Rightarrow> string \<Rightarrow> bool" where
  "contains_str sub [] = (sub = [])"
| "contains_str sub (c # cs) = (starts_with sub (c # cs) \<or> contains_str sub cs)"

text \<open>
  \<^verbatim>\<open>key in v\<close> for a string key: key membership in a dictionary, element membership in
  a list, substring test in a string, and a \<^verbatim>\<open>TypeError\<close> for a value that is not a
  container.
\<close>

fun py_contains :: "string \<Rightarrow> py_value \<Rightarrow> exc + bool" where
  "py_contains k (PyDict kvs) = Inr (k \<in> set (map fst kvs))"
| "py_contains k (PyList xs) = Inr (PyStr k \<in> set xs)"
| "py_contains k (PyStr s) = Inr (contains_str k s)"
| "py_contains k v = Inl (Raised TypeError)"

text \<open>
  \<^verbatim>\<open>v[key]\<close> for a string key: the value stored in a dictionary (\<^verbatim>\<open>KeyError\<close> when
  absent), and a \<^verbatim>\<open>TypeError\<close> for every other value (a list and a string take
  integer indices only).
\<close>

fun py_getitem :: "py_value \<Rightarrow> string \<Rightarrow> exc + py_value" where
  "py_getitem (PyDict kvs) k =
     (case map_of kvs k of None \<Rightarrow> Inl (Raised KeyError) | Some v \<Rightarrow> Inr v)"
| "py_getitem v k = Inl (Raised TypeError)"

section \<open>The response classifier\<close>

text \<open>
  The body of the \<^verbatim>\<open>try\<close> block of \<^verbatim>\<open>handle_response\<close>: decode the body, and append
  the \<^verbatim>\<open>message\<close> entry to the error message when \<^verbatim>\<open>'message' in error_data\<close>.
\<close>

definition append_detail :: "response \<Rightarrow> string \<Rightarrow> exc + string" where
  "append_detail r error_message =
     (case response_json r of
        Inl e \<Rightarrow> Inl e
      | Inr error_data \<Rightarrow>
          (case py_contains ''message'' error_data of
             Inl e \<Rightarrow> Inl e
           | Inr False \<Rightarrow> Inr error_message
           | Inr True \<Rightarrow>
               (case py_getitem error_data ''message'' of
                  Inl e \<Rightarrow> Inl e
                | Inr v \<Rightarrow> Inr (error_message @ '' - '' @ py_str v))))"

text \<open>
  The three \<^verbatim>\<open>raise\<close> statements at the end of \<^verbatim>\<open>handle_response\<close>. Each evaluates
  \<^verbatim>\<open>response.json()\<close> again for the third argument, before the exception is built.
\<close>

definition raise_for_status :: "response \<Rightarrow> string \<Rightarrow> exc" where
  "raise_for_status r error_message =
     (case response_json r of
        Inl e \<Rightarrow> e
      | Inr body \<Rightarrow>
          if status_code r \<in> set [401, 403] then
            APIExc AuthenticationError error_message (Some (status_code r)) (Some body)
          else if status_code r = 429 then
            APIExc RateLimitError error_message (Some (status_code r)) (Some body)
          else APIExc APIError error_message (Some (status_code r)) (Some body))"

text \<open>
  \<^verbatim>\<open>ErrorHandler.handle_response(response, service)\<close>. Only status 200 returns the decoded
  body. For every other status the message is built, the \<^verbatim>\<open>except ValueError\<close> clause
  appends the body text when the \<^verbatim>\<open>try\<close> block raised a \<^verbatim>\<open>ValueError\<close> (any other
  exception of the block leaves the function), and an exception is raised.
\<close>

definition handle_response :: "response \<Rightarrow> string \<Rightarrow> exc + py_value" where
  "handle_response r service =
     (if status_code r = 200 then response_json r
      else
        (let error_message = service @ '' API error: '' @ show_int (status_code r)
         in (case append_detail r error_message of
               Inr error_message' \<Rightarrow> Inl (raise_for_status r error_message')
             | Inl e \<Rightarrow>
                 if isinstance e ValueError then
                   Inl (raise_for_status r (error_message @ '' - '' @ resp_text r))
                 else Inl e)))"

section \<open>Classifying an exception as retryable\<close>

text \<open>\<^verbatim>\<open>ErrorHandler.is_retryable_error(exception)\<close>: an \<^verbatim>\<open>isinstance\<close> test on four classes.\<close>

definition is_retryable_error :: "exc \<Rightarrow> bool" where
  "is_retryable_error exception =
     (isinstance exception ConnectionError \<or> isinstance exception Timeout
        \<or> isinstance exception RetryableError \<or> isinstance exception HTTPError)"

section \<open>Python floats\<close>

text \<open>
  A Python float is an IEEE 754 double. A finite double is the real number it denotes
  (a zero carries no sign here); the other values are the two infinities and NaN. An
  arithmetic operation on finite doubles computes the exact result and rounds it to
  the nearest double, a tie going to the even significand.

  \<open>round_half_even\<close> rounds a real number to the nearest integer, a tie going to the
  even one. \<open>binade\<close> is the exponent \<open>e\<close> of the doubles next to \<open>x\<close>: the least \<open>e\<close> from
  -1022 on with \<open>\<bar>x\<bar> < 2 ^ (e + 1)\<close>, and 1023 when there is none. The doubles of a
  binade are the multiples of \<open>2 ^ (e - 52)\<close>, and \<open>round_double\<close> rounds to the nearest
  of them; below \<open>2 ^ (-1022)\<close> these are the subnormal numbers.
\<close>

definition round_half_even :: "real \<Rightarrow> int" where
  "round_half_even x =
     (let n = \<lfloor>x\<rfloor>; r = x - of_int n
      in if r < 1 / 2 then n else if 1 / 2 < r then n + 1 else if even n then n else n + 1)"

fun binade_search :: "nat \<Rightarrow> int \<Rightarrow> real \<Rightarrow> int" where
  "binade_search 0 e x = e"
| "binade_search (Suc n) e x =
     (if x < 2 powi (e + 1) then e else binade_search n (e + 1) x)"

definition binade :: "real \<Rightarrow> int" where
  "binade x = binade_search 2045 (- 1022) \<bar>x\<bar>"

definition round_double :: "real \<Rightarrow> real" where
  "round_double x =
     (let u = binade x - 52 in of_int (round_half_even (x / 2 powi u)) * 2 powi u)"

datatype pyfloat = Finite real | PosInf | NegInf | NaN

text \<open>
  The double for an exact result: the rounded value, or an infinity when the rounded
  value is \<open>2 ^ 1024\<close> or more in magnitude.
\<close>

definition to_float :: "real \<Rightarrow> pyfloat" where
  "to_float x =
     (if 2 ^ 1024 \<le> round_double x then PosInf
      else if round_double x \<le> - (2 ^ 1024) then NegInf
      else Finite (round_double x))"

text \<open>Multiplication, addition and \<^verbatim>\<open><\<close> of floats; none of them raises.\<close>

fun f_mul :: "pyfloat \<Rightarrow> pyfloat \<Rightarrow> pyfloat" where
  "f_mul (Finite x) (Finite y) = to_float (x * y)"
| "f_mul NaN b = NaN"
| "f_mul a NaN = NaN"
| "f_mul (Finite x) PosInf = (if x = 0 then NaN else if 0 < x then PosInf else NegInf)"
| "f_mul (Finite x) NegInf = (if x = 0 then NaN else if 0 < x then NegInf else PosInf)"
| "f_mul PosInf (Finite y) = (if y = 0 then NaN else if 0 < y then PosInf else NegInf)"
| "f_mul NegInf (Finite y) = (if y = 0 then NaN else if 0 < y then NegInf else PosInf)"
| "f_mul PosInf PosInf = PosInf"
| "f_mul NegInf NegInf = PosInf"
| "f_mul PosInf NegInf = NegInf"
| "f_mul NegInf PosInf = NegInf"

fun f_add :: "pyfloat \<Rightarrow> pyfloat \<Rightarrow> pyfloat" where
  "f_add (Finite x) (Finite y) = to_float (x + y)"
| "f_add NaN b = NaN"
| "f_add a NaN = NaN"
| "f_add PosInf NegInf = NaN"
| "f_add NegInf PosInf = NaN"
| "f_add PosInf b = PosInf"
| "f_add NegInf b = NegInf"
| "f_add a PosInf = PosInf"
| "f_add a NegInf = NegInf"

fun f_less :: "pyfloat \<Rightarrow> pyfloat \<Rightarrow> bool" where
  "f_less (Finite x) (Finite y) = (x < y)"
| "f_less NaN b = False"
| "f_less a NaN = False"
| "f_less NegInf b = (b \<noteq> NegInf)"
| "f_less a PosInf = (a \<noteq> PosInf)"
| "f_less a b = False"

text \<open>\<^verbatim>\<open>min(a, b)\<close>: the second argument when it is less than the first, else the first.\<close>

definition py_min :: "pyfloat \<Rightarrow> pyfloat \<Rightarrow> pyfloat" where
  "py_min a b = (if f_less b a then b else a)"

text \<open>
  The conversion of an integer to a float, as an operation on an integer and a float
  does first: the nearest double, and \<^verbatim>\<open>OverflowError\<close> when that is out of range.
\<close>

definition int_to_float :: "int \<Rightarrow> exc + pyfloat" where
  "int_to_float i =
     (case to_float (of_int i) of
        Finite x \<Rightarrow> Inr (Finite x)
      | _ \<Rightarrow> Inl (Raised OverflowError))"

text \<open>The double that the literal \<^verbatim>\<open>0.1\<close> denotes.\<close>

definition double_tenth :: real where
  "double_tenth = 3602879701896397 / 2 ^ 55"

section \<open>The backoff delay\<close>

text \<open>
  \<^verbatim>\<open>x * (2 ** k)\<close> for a float \<open>x\<close> and an integer \<open>k\<close>. For \<open>k\<close> from 0 on the power is an
  integer, which the product converts to a float. For a negative \<open>k\<close> the power is
  computed on floats, after the conversion of \<open>k\<close> itself.
\<close>

definition times_pow2 :: "pyfloat \<Rightarrow> int \<Rightarrow> exc + pyfloat" where
  "times_pow2 x k =
     (if 0 \<le> k then
        (case int_to_float (2 ^ nat k) of
           Inl e \<Rightarrow> Inl e
         | Inr p \<Rightarrow> Inr (f_mul x p))
      else
        (case int_to_float k of
           Inl e \<Rightarrow> Inl e
         | Inr _ \<Rightarrow> Inr (f_mul x (to_float (2 powi k)))))"

text \<open>
  \<^verbatim>\<open>ErrorHandler.get_retry_delay(attempt, base_delay, max_delay)\<close> for an integer
  \<open>attempt\<close> and two floats. The function reads the clock: \<open>now\<close> is the double that
  \<^verbatim>\<open>time.time()\<close> returns, and \<^verbatim>\<open>time.time() % 1\<close> is the double of its fractional part.
  The product \<^verbatim>\<open>delay * 0.1 * (1 + ...)\<close> is evaluated from the left.
\<close>

definition get_retry_delay :: "real \<Rightarrow> int \<Rightarrow> pyfloat \<Rightarrow> pyfloat \<Rightarrow> exc + pyfloat" where
  "get_retry_delay now attempt base_delay max_delay =
     (case times_pow2 base_delay (attempt - 1) of
        Inl e \<Rightarrow> Inl e
      | Inr scaled \<Rightarrow>
          (let delay = py_min scaled max_delay;
               jitter = f_mul (f_mul delay (to_float 0.1))
                          (f_add (Finite 1) (to_float (frac now)))
           in Inr (f_add delay jitter)))"

section \<open>Sleeping\<close>

text \<open>
  \<^verbatim>\<open>time.sleep(d)\<close> returns after \<open>d\<close> seconds, raises \<^verbatim>\<open>ValueError\<close> for a negative
  duration and \<^verbatim>\<open>OverflowError\<close> for one that does not fit a signed 64-bit count of
  nanoseconds. None is the normal return.
\<close>

definition time_sleep :: "real \<Rightarrow> exc option" where
  "time_sleep d =
     (if d < 0 then Some (Raised ValueError)
      else if 2 ^ 63 \<le> d * 10 ^ 9 then Some (Raised OverflowError)
      else None)"

section \<open>The retry wrapper\<close>

text \<open>
  \<^verbatim>\<open>retry_on_failure\<close> wraps the operation with the \<^verbatim>\<open>retry\<close> decorator of tenacity,
  configured with three policies. \<^verbatim>\<open>stop_after_attempt(n)\<close> stops once the attempt
  number has reached \<open>n\<close>. \<^verbatim>\<open>wait_exponential(multiplier, max)\<close> waits
  \<open>multiplier * 2 ^ (attempt - 1)\<close>, at most \<open>max\<close> and at least 0; when the power is too
  large for a float (from \<open>2 ^ 1024\<close> on) it catches the \<^verbatim>\<open>OverflowError\<close> and waits
  \<open>max\<close>. Scaling a double by a power of two is exact, so the waits are real numbers
  here. \<^verbatim>\<open>retry_if_exception_type\<close> asks for another attempt when the exception is an
  instance of one of the three classes given.
\<close>

definition stop_after_attempt :: "int \<Rightarrow> int \<Rightarrow> bool" where
  "stop_after_attempt max_attempt_number attempt_number =
     (attempt_number \<ge> max_attempt_number)"

text \<open>\<open>2 ^ k\<close> for an integer \<open>k\<close>, as a real number.\<close>

definition pow2 :: "int \<Rightarrow> real" where
  "pow2 k = (if 0 \<le> k then 2 ^ nat k else 1 / 2 ^ nat (- k))"

definition wait_exponential :: "real \<Rightarrow> real \<Rightarrow> int \<Rightarrow> real" where
  "wait_exponential multiplier max_wait attempt_number =
     (if 1024 \<le> attempt_number - 1 then max_wait
      else max 0 (min (multiplier * pow2 (attempt_number - 1)) max_wait))"

definition retry_if_exception_type :: "exc \<Rightarrow> bool" where
  "retry_if_exception_type e =
     (isinstance e ConnectionError \<or> isinstance e Timeout \<or> isinstance e RetryableError)"

text \<open>
  The loop of tenacity around the wrapped function. An operation is a function of the
  state of the world that returns its outcome and the new state. Attempts are numbered
  from 1. A result is returned. An exception that the retry policy does not select
  leaves the loop as it is. A selected exception at the last attempt is wrapped in a
  \<^verbatim>\<open>RetryError\<close>, since the decorator is configured without \<^verbatim>\<open>reraise\<close>. Otherwise
  the loop sleeps for the wait of this attempt and calls the function again. The
  \<^verbatim>\<open>before_sleep\<close> hook only writes to the log and is left out.

  The loop returns the outcome, the last state, the number of calls of the function and
  the durations slept, in order.
\<close>

record ('a, 's) retried =
  outcome :: "exc + 'a"
  final_state :: 's
  calls :: int
  slept :: "real list"

function retrying ::
  "int \<Rightarrow> real \<Rightarrow> real \<Rightarrow> ('s \<Rightarrow> (exc + 'a) \<times> 's) \<Rightarrow> int \<Rightarrow> real list \<Rightarrow> 's \<Rightarrow> ('a, 's) retried"
where
  "retrying max_attempts base_delay max_delay func attempt_number sleeps s =
     (case func s of
        (Inr v, s') \<Rightarrow>
          \<lparr>outcome = Inr v, final_state = s', calls = attempt_number, slept = sleeps\<rparr>
      | (Inl e, s') \<Rightarrow>
          if \<not> retry_if_exception_type e then
            \<lparr>outcome = Inl e, final_state = s', calls = attempt_number, slept = sleeps\<rparr>
          else if stop_after_attempt max_attempts attempt_number then
            \<lparr>outcome = Inl (RetryExc e), final_state = s', calls = attempt_number,
               slept = sleeps\<rparr>
          else
            (let sleep = wait_exponential base_delay max_delay attempt_number
             in (case time_sleep sleep of
                   Some e' \<Rightarrow>
                     \<lparr>outcome = Inl e', final_state = s', calls = attempt_number,
                        slept = sleeps\<rparr>
                 | None \<Rightarrow>
                     retrying max_attempts base_delay max_delay func (attempt_number + 1)
                       (sleeps @ [sleep]) s')))"
  by pat_completeness auto
termination
  by (relation "measure (\<lambda>(m, b, d, f, n, sl, s). nat (m - n))")
    (auto simp: stop_after_attempt_def)

declare retrying.simps [simp del]

text \<open>
  \<^verbatim>\<open>retry_on_failure(max_attempts, base_delay, max_delay)(func)\<close>, called in state \<open>s\<close>.
  The defaults of the three parameters are 3, 1.0 and 60.0.
\<close>

definition retry_on_failure ::
  "int \<Rightarrow> real \<Rightarrow> real \<Rightarrow> ('s \<Rightarrow> (exc + 'a) \<times> 's) \<Rightarrow> 's \<Rightarrow> ('a, 's) retried"
where
  "retry_on_failure max_attempts base_delay max_delay func s =
     retrying max_attempts base_delay max_delay func 1 [] s"

text \<open>
  Two operations for the scenarios of the retry policy. Their state is the number of
  calls made so far. The first raises \<open>e\<close> at every call; the second raises \<open>e\<close> at its
  first \<open>k\<close> calls and returns \<open>v\<close> at every later one.
\<close>

definition failing_op :: "exc \<Rightarrow> nat \<Rightarrow> (exc + 'a) \<times> nat" where
  "failing_op e n = (Inl e, Suc n)"

definition flaky_op :: "nat \<Rightarrow> exc \<Rightarrow> 'a \<Rightarrow> nat \<Rightarrow> (exc + 'a) \<times> nat" where
  "flaky_op k e v n = (if n < k then Inl e else Inr v, Suc n)"

section \<open>The rate-limit cooldown\<close>

text \<open>
  \<^verbatim>\<open>int(s)\<close> for a string: surrounding whitespace is dropped, one sign is allowed, and
  the rest is decimal digits, where single underscores may separate digits. None is the
  \<^verbatim>\<open>ValueError\<close> for any other text, and for more than 4300 digits (the limit of
  CPython 3.11 and later).
\<close>

definition is_space :: "char \<Rightarrow> bool" where
  "is_space c =
     (let n = (of_char c :: nat)
      in (9 \<le> n \<and> n \<le> 13) \<or> (28 \<le> n \<and> n \<le> 32) \<or> n = 133 \<or> n = 160)"

definition is_digit :: "char \<Rightarrow> bool" where
  "is_digit c = (let n = (of_char c :: nat) in 48 \<le> n \<and> n \<le> 57)"

definition strip :: "string \<Rightarrow> string" where
  "strip s = rev (dropWhile is_space (rev (dropWhile is_space s)))"

fun parse_digits :: "bool \<Rightarrow> nat \<Rightarrow> string \<Rightarrow> nat option" where
  "parse_digits after_digit acc [] = (if after_digit then Some acc else None)"
| "parse_digits after_digit acc (c # cs) =
     (if is_digit c then parse_digits True (acc * 10 + (of_char c - 48)) cs
      else if c = CHR ''_'' \<and> after_digit then parse_digits False acc cs
      else None)"

definition py_int :: "string \<Rightarrow> int option" where
  "py_int s =
     (case strip s of
        [] \<Rightarrow> None
      | c # cs \<Rightarrow>
          (let body = (if c = CHR ''-'' \<or> c = CHR ''+'' then cs else c # cs)
           in if 4300 < length (filter is_digit body) then None
              else if c = CHR ''-'' then map_option (\<lambda>n. - int n) (parse_digits False 0 body)
              else map_option int (parse_digits False 0 body)))"

text \<open>
  The two branches of the cooldown, up to the sleep: the header value when it is
  present and not empty (\<^verbatim>\<open>if retry_after\<close>), 60 seconds otherwise. The result is the
  exception that interrupts the branch, if any, and the durations slept.
\<close>

definition cooldown :: "response \<Rightarrow> exc option \<times> int list" where
  "cooldown r =
     (case headers_get (headers r) ''Retry-After'' of
        Some retry_after \<Rightarrow>
          if retry_after \<noteq> [] then
            (case py_int retry_after of
               None \<Rightarrow> (Some (Raised ValueError), [])
             | Some wait_time \<Rightarrow>
                 (case time_sleep (of_int wait_time) of
                    Some e \<Rightarrow> (Some e, [])
                  | None \<Rightarrow> (None, [wait_time])))
          else (time_sleep 60, [60])
      | None \<Rightarrow> (time_sleep 60, [60]))"

text \<open>
  \<^verbatim>\<open>handle_rate_limit(response, service)\<close>: nothing happens unless the status is 429;
  then the cooldown, then the \<^verbatim>\<open>raise\<close>, whose third argument evaluates
  \<^verbatim>\<open>response.json()\<close>. The result is the outcome and the durations slept. The two calls
  of the logger are left out.
\<close>

definition handle_rate_limit :: "response \<Rightarrow> string \<Rightarrow> (exc + unit) \<times> int list" where
  "handle_rate_limit r service =
     (if status_code r = 429 then
        (case cooldown r of
           (Some e, durations) \<Rightarrow> (Inl e, durations)
         | (None, durations) \<Rightarrow>
             (case response_json r of
                Inl e \<Rightarrow> (Inl e, durations)
              | Inr body \<Rightarrow>
                  (Inl (APIExc RateLimitError (service @ '' rate limit exceeded'')
                          (Some 429) (Some body)), durations)))
      else (Inr (), []))"

section \<open>Facts about the building blocks\<close>

lemma time_sleep_int: "time_sleep (real_of_int n) = None \<longleftrightarrow> 0 \<le> n \<and> n \<le> 9223372036"
proof -
  have "(2 ^ 63 \<le> real_of_int n * 10 ^ 9) = (2 ^ 63 \<le> n * 10 ^ 9)"
    by (metis (mono_tags) of_int_le_iff of_int_mult of_int_numeral of_int_power)
  then show ?thesis
    by (auto simp: time_sleep_def)
qed

lemma default_waits:
  "wait_exponential 1 60 1 = 1" "wait_exponential 1 60 2 = 2"
  "time_sleep 1 = None" "time_sleep 2 = None"
  by (simp_all add: wait_exponential_def pow2_def time_sleep_def)

lemma timeout_selected: "isinstance e Timeout \<Longrightarrow> retry_if_exception_type e"
  by (simp add: retry_if_exception_type_def)

subsection \<open>One step of the retry loop\<close>

lemma retrying_returns:
  "func s = (Inr v, s') \<Longrightarrow>
   retrying m b d func n sl s = \<lparr>outcome = Inr v, final_state = s', calls = n, slept = sl\<rparr>"
  by (subst retrying.simps) simp


lemma retrying_exhausted:
  "func s = (Inl e, s') \<Longrightarrow> retry_if_exception_type e \<Longrightarrow> m \<le> n \<Longrightarrow>
   retrying m b d func n sl s =
     \<lparr>outcome = Inl (RetryExc e), final_state = s', calls = n, slept = sl\<rparr>"
  by (subst retrying.simps) (simp add: stop_after_attempt_def)

lemma retrying_again:
  "func s = (Inl e, s') \<Longrightarrow> retry_if_exception_type e \<Longrightarrow> n < m \<Longrightarrow>
   time_sleep (wait_exponential b d n) = None \<Longrightarrow>
   retrying m b d func n sl s = retrying m b d func (n + 1) (sl @ [wait_exponential b d n]) s'"
  by (subst retrying.simps) (simp add: stop_after_attempt_def Let_def)


subsection \<open>The classifier on a body that decodes to an object\<close>

lemma append_detail_dict:
  assumes "json r = Some (PyDict kvs)"
  shows "append_detail r m =
     Inr (m @ (case map_of kvs ''message'' of None \<Rightarrow> [] | Some v \<Rightarrow> '' - '' @ py_str v))"
proof (cases "map_of kvs ''message''")
  case None
  then have "''message'' \<notin> fst ` set kvs"
    by (simp add: map_of_eq_None_iff)
  with None assms show ?thesis
    by (simp add: append_detail_def response_json_def)
next
  case (Some v)
  then have "''message'' \<in> fst ` set kvs"
    by (metis map_of_eq_None_iff option.distinct(1))
  with Some assms show ?thesis
    by (simp add: append_detail_def response_json_def)
qed

subsection \<open>What the classifier and the cooldown can raise\<close>

lemma raise_for_status_kind:
  "raise_for_status r m = e \<Longrightarrow>
     (class_of e = AuthenticationError \<longrightarrow>
        exc_status_code e = Some (status_code r) \<and> (status_code r = 401 \<or> status_code r = 403))
   \<and> (class_of e = RateLimitError \<longrightarrow>
        exc_status_code e = Some 429 \<and> status_code r = 429)
   \<and> (class_of e = APIError \<longrightarrow>
        exc_status_code e = Some (status_code r) \<and> status_code r \<notin> {401, 403, 429})"
  by (auto simp: raise_for_status_def response_json_def split: option.splits if_splits)

lemma append_detail_raises:
  assumes "append_detail r m = Inl e"
  shows "e \<in> {Raised JSONDecodeError, Raised TypeError, Raised KeyError}"
proof -
  have c: "py_contains k v = Inl e \<Longrightarrow> e = Raised TypeError" for k v
    by (cases v) auto
  have g: "py_getitem v k = Inl e \<Longrightarrow> e = Raised TypeError \<or> e = Raised KeyError" for k v
    by (cases v) (auto split: option.splits)
  from assms show ?thesis
    using c g
    by (auto simp: append_detail_def response_json_def
        split: option.splits sum.splits bool.splits)
qed

text \<open>
  The kind of an error of the \<^verbatim>\<open>APIError\<close> family that the classifier raises fits the
  status of the response, and the error carries that status.
\<close>

lemma handle_response_kind_status:
  assumes "handle_response r service = Inl e"
  shows "(class_of e = AuthenticationError \<longrightarrow>
        exc_status_code e = Some (status_code r) \<and> (status_code r = 401 \<or> status_code r = 403))
   \<and> (class_of e = RateLimitError \<longrightarrow>
        exc_status_code e = Some 429 \<and> status_code r = 429)
   \<and> (class_of e = APIError \<longrightarrow>
        exc_status_code e = Some (status_code r) \<and> status_code r \<notin> {200, 401, 403, 429})"
proof (cases "status_code r = 200")
  case True
  with assms have "e = Raised JSONDecodeError"
    by (auto simp: handle_response_def response_json_def split: option.splits)
  then show ?thesis by simp
next
  case False
  let ?m = "service @ '' API error: '' @ show_int (status_code r)"
  show ?thesis
  proof (cases "append_detail r ?m")
    case (Inr m')
    with assms False have "raise_for_status r m' = e"
      by (simp add: handle_response_def Let_def)
    from raise_for_status_kind [OF this] False show ?thesis by simp
  next
    case (Inl e')
    show ?thesis
    proof (cases "isinstance e' ValueError")
      case True
      with assms False Inl have "raise_for_status r (?m @ '' - '' @ resp_text r) = e"
        by (simp add: handle_response_def Let_def)
      from raise_for_status_kind [OF this] False show ?thesis by simp
    next
      case other: False
      with assms False Inl have "e = e'"
        by (simp add: handle_response_def Let_def)
      with append_detail_raises [OF Inl] show ?thesis by auto
    qed
  qed
qed

lemma handle_rate_limit_kind_status:
  assumes "fst (handle_rate_limit r service) = Inl e"
  shows "class_of e \<noteq> AuthenticationError \<and> class_of e \<noteq> APIError
   \<and> (class_of e = RateLimitError \<longrightarrow> exc_status_code e = Some 429 \<and> status_code r = 429)"
  using assms
  by (auto simp: handle_rate_limit_def cooldown_def response_json_def time_sleep_def
      split: option.splits if_splits prod.splits)

text \<open>The classifier returns a value for status 200 with a decodable body, and only then.\<close>

lemma handle_response_returns_iff:
  "handle_response r service = Inr v \<longleftrightarrow> status_code r = 200 \<and> json r = Some v"
  by (auto simp: handle_response_def response_json_def Let_def split: option.splits sum.splits)

text \<open>Whenever the cooldown raises a \<^verbatim>\<open>RateLimitError\<close>, it has slept as long as the header
  asks, or 60 seconds when the header is absent or empty.\<close>

lemma handle_rate_limit_when_raised:
  assumes "handle_rate_limit r service = (Inl e, slept_for)" "class_of e = RateLimitError"
  shows "status_code r = 429
    \<and> e = APIExc RateLimitError (service @ '' rate limit exceeded'') (Some 429) (json r)
    \<and> slept_for =
        [case headers_get (headers r) ''Retry-After'' of
           None \<Rightarrow> 60
         | Some h \<Rightarrow> (case py_int h of None \<Rightarrow> 60 | Some n \<Rightarrow> n)]"
proof -
  have e: "py_int [] = None" by (simp add: py_int_def strip_def)
  from assms show ?thesis
    by (auto simp: handle_rate_limit_def cooldown_def response_json_def time_sleep_def e
        split: option.splits if_splits prod.splits)
qed

text \<open>A decoded body on which the membership test or the subscript fails.\<close>

lemma handle_response_type_error:
  assumes "status_code r \<noteq> 200" "json r = Some body"
    and "body = PyNone \<or> (\<exists>b. body = PyBool b) \<or> (\<exists>i. body = PyInt i) \<or> (\<exists>f. body = PyFloat f)
      \<or> (\<exists>xs. body = PyList xs \<and> PyStr ''message'' \<in> set xs)
      \<or> (\<exists>t. body = PyStr t \<and> contains_str ''message'' t)"
  shows "handle_response r service = Inl (Raised TypeError)"
  using assms
  by (auto simp: handle_response_def append_detail_def response_json_def isinstance_def Let_def)

section \<open>Rounding to a double\<close>

text \<open>
  Rounding is monotone and stays within the binade of its argument. The lemmas below
  prove this and evaluate the rounding at the doubles that the delays of the first
  attempts run through.
\<close>

lemma round_half_even_of_int [simp]: "round_half_even (of_int a) = a"
  by (simp add: round_half_even_def)

lemma round_half_even_lower: "of_int a \<le> x \<Longrightarrow> a \<le> round_half_even x"
proof -
  assume "of_int a \<le> x"
  then have "a \<le> \<lfloor>x\<rfloor>" by (simp add: le_floor_iff)
  then show ?thesis by (auto simp: round_half_even_def Let_def)
qed

lemma round_half_even_upper: "x \<le> of_int b \<Longrightarrow> round_half_even x \<le> b"
proof -
  assume a: "x \<le> of_int b"
  show ?thesis
  proof (cases "x = of_int b")
    case True
    then show ?thesis by simp
  next
    case False
    with a have "x < of_int b" by simp
    then have "\<lfloor>x\<rfloor> < b" by (simp add: floor_less_iff)
    then show ?thesis by (auto simp: round_half_even_def Let_def)
  qed
qed

lemma round_half_even_mono: "x \<le> y \<Longrightarrow> round_half_even x \<le> round_half_even y"
proof -
  assume xy: "x \<le> y"
  then have f: "\<lfloor>x\<rfloor> \<le> \<lfloor>y\<rfloor>" by (rule floor_mono)
  show ?thesis
  proof (cases "\<lfloor>x\<rfloor> = \<lfloor>y\<rfloor>")
    case True
    with xy show ?thesis
      by (auto simp: round_half_even_def Let_def)
  next
    case False
    with f have "\<lfloor>x\<rfloor> + 1 \<le> \<lfloor>y\<rfloor>" by simp
    moreover have "round_half_even x \<le> \<lfloor>x\<rfloor> + 1" by (auto simp: round_half_even_def Let_def)
    moreover have "\<lfloor>y\<rfloor> \<le> round_half_even y" by (auto simp: round_half_even_def Let_def)
    ultimately show ?thesis by linarith
  qed
qed

lemma round_half_even_near:
  assumes "\<bar>x - of_int n\<bar> < 1 / 2"
  shows "round_half_even x = n"
proof (cases "of_int n \<le> x")
  case True
  with assms have "\<lfloor>x\<rfloor> = n" by (intro floor_unique) auto
  with assms True show ?thesis by (simp add: round_half_even_def)
next
  case False
  with assms have "\<lfloor>x\<rfloor> = n - 1" by (intro floor_unique) auto
  with assms False show ?thesis by (auto simp: round_half_even_def Let_def)
qed

lemma powi_less_imp: "(2::real) powi a < 2 powi b \<Longrightarrow> a < b"
proof (rule ccontr)
  assume l: "(2::real) powi a < 2 powi b" and "\<not> a < b"
  then have "b \<le> a" by simp
  then have "(2::real) powi b \<le> 2 powi a" by (simp add: power_int_increasing)
  with l show False by simp
qed

lemma binade_search_finds:
  "e \<le> t \<Longrightarrow> t - e \<le> int n \<Longrightarrow> 2 powi t \<le> x \<Longrightarrow> x < 2 powi (t + 1) \<Longrightarrow> binade_search n e x = t"
proof (induction n arbitrary: e)
  case 0
  then show ?case by simp
next
  case (Suc n)
  show ?case
  proof (cases "x < 2 powi (e + 1)")
    case True
    with Suc.prems(3) have "(2::real) powi t < 2 powi (e + 1)" by linarith
    then have "t < e + 1" by (rule powi_less_imp)
    with Suc.prems(1) True show ?thesis by simp
  next
    case False
    with Suc.prems(4) have "(2::real) powi (e + 1) < 2 powi (t + 1)" by linarith
    then have "e + 1 < t + 1" by (rule powi_less_imp)
    then have "binade_search n (e + 1) x = t"
      using Suc.prems by (intro Suc.IH) auto
    with False show ?thesis by simp
  qed
qed

lemma binade_search_bounds:
  "e \<le> binade_search n e x \<and> (x < 2 powi (t + 1) \<longrightarrow> binade_search n e x \<le> max e t)"
proof (induction n arbitrary: e)
  case 0
  then show ?case by simp
next
  case (Suc n)
  show ?case
  proof (cases "x < 2 powi (e + 1)")
    case True
    then show ?thesis by simp
  next
    case False
    have lo: "e \<le> binade_search n (e + 1) x" using Suc.IH [of "e + 1"] by simp
    have "binade_search n (e + 1) x \<le> max e t" if "x < 2 powi (t + 1)"
    proof -
      from that False have "(2::real) powi (e + 1) < 2 powi (t + 1)" by linarith
      then have "e + 1 < t + 1" by (rule powi_less_imp)
      then show ?thesis using Suc.IH [of "e + 1"] that by simp
    qed
    with lo False show ?thesis by simp
  qed
qed

lemma binade_eq:
  assumes "2 powi e \<le> x" "x < 2 powi (e + 1)" "- 1022 \<le> e" "e \<le> 1023"
  shows "binade x = e"
proof -
  have "0 < x" using assms(1) zero_less_power_int [of "2::real" e] by linarith
  then show ?thesis
    unfolding binade_def using assms by (simp add: binade_search_finds)
qed

lemma round_double_binade:
  assumes "2 powi e \<le> x" "x < 2 powi (e + 1)" "- 1022 \<le> e" "e \<le> 1023"
  shows "round_double x = of_int (round_half_even (x * 2 powi (52 - e))) * 2 powi (e - 52)"
proof -
  have "x / 2 powi (e - 52) = x * 2 powi (52 - e)"
    by (simp add: power_int_diff field_simps)
  then show ?thesis using binade_eq [OF assms] by (simp add: round_double_def)
qed


lemma round_double_in_binade:
  assumes "2 powi e \<le> x" "x < 2 powi (e + 1)" "- 1022 \<le> e" "e \<le> 1023"
  shows "2 powi e \<le> round_double x \<and> round_double x \<le> 2 powi (e + 1)"
proof -
  have s: "(2::real) powi e * 2 powi (52 - e) = 2 ^ 52"
    "(2::real) powi (e + 1) * 2 powi (52 - e) = 2 ^ 53"
    by (simp_all flip: power_int_add)
  have q: "0 < (2::real) powi (52 - e)" by simp
  have "2 ^ 52 \<le> x * 2 powi (52 - e)"
    using assms(1) q s(1) by (metis mult_le_cancel_right_pos)
  then have "real_of_int (2 ^ 52) \<le> x * 2 powi (52 - e)" by simp
  then have lo: "2 ^ 52 \<le> round_half_even (x * 2 powi (52 - e))" by (rule round_half_even_lower)
  have "x * 2 powi (52 - e) \<le> 2 ^ 53"
    using assms(2) q s(2) by (metis less_eq_real_def mult_le_cancel_right_pos)
  then have "x * 2 powi (52 - e) \<le> real_of_int (2 ^ 53)" by simp
  then have hi: "round_half_even (x * 2 powi (52 - e)) \<le> 2 ^ 53" by (rule round_half_even_upper)
  have "53 + (e - 52) = e + 1" by simp
  then have "(2::real) powi 53 * 2 powi (e - 52) = 2 powi (e + 1)"
    using power_int_add [of "2::real" 53 "e - 52"] by (simp only:) simp
  moreover have "(2::real) powi 52 * 2 powi (e - 52) = 2 powi e"
    using power_int_add [of "2::real" 52 "e - 52"] by simp
  ultimately have t: "(2::real) ^ 52 * 2 powi (e - 52) = 2 powi e"
    "(2::real) ^ 53 * 2 powi (e - 52) = 2 powi (e + 1)"
    by simp_all
  have r: "0 < (2::real) powi (e - 52)" by simp
  from lo have "(2::real) ^ 52 \<le> real_of_int (round_half_even (x * 2 powi (52 - e)))"
    by (metis of_int_le_iff of_int_numeral of_int_power)
  then have a: "2 powi e \<le> real_of_int (round_half_even (x * 2 powi (52 - e))) * 2 powi (e - 52)"
    using r t(1) by (metis mult_le_cancel_right_pos)
  from hi have "real_of_int (round_half_even (x * 2 powi (52 - e))) \<le> (2::real) ^ 53"
    by (metis of_int_le_iff of_int_numeral of_int_power)
  then have b: "real_of_int (round_half_even (x * 2 powi (52 - e))) * 2 powi (e - 52) \<le> 2 powi (e + 1)"
    using r t(2) by (metis mult_le_cancel_right_pos)
  show ?thesis using a b round_double_binade [OF assms] by simp
qed

lemma binade_exists:
  assumes "2 powi (- 1022) \<le> (x::real)" "x < 2 powi 1024"
  shows "\<exists>e. 2 powi e \<le> x \<and> x < 2 powi (e + 1) \<and> - 1022 \<le> e \<and> e \<le> 1023"
proof -
  have p: "0 < x" using assms(1) zero_less_power_int [of "2::real" "- 1022"] by linarith
  let ?e = "\<lfloor>log 2 x\<rfloor>"
  have "(2::real) powr real_of_int ?e = 2 powi ?e"
       "(2::real) powr (real_of_int ?e + 1) = 2 powi (?e + 1)"
    using powr_real_of_int' [of "2::real" ?e] powr_real_of_int' [of "2::real" "?e + 1"]
    by simp_all
  then have b: "2 powi ?e \<le> x" "x < 2 powi (?e + 1)"
    using floor_log_eq_powr_iff [of x 2 ?e] p by auto
  have "(2::real) powi (- 1022) < 2 powi (?e + 1)" using assms(1) b(2) by linarith
  then have "- 1022 < ?e + 1" by (rule powi_less_imp)
  moreover have "(2::real) powi ?e < 2 powi 1024" using assms(2) b(1) by linarith
  then have "?e < 1024" by (rule powi_less_imp)
  ultimately show ?thesis using b by (intro exI [of _ ?e]) auto
qed

lemma round_double_mono:
  assumes "2 powi (- 1022) \<le> x" "x \<le> y" "y < 2 powi 1024"
  shows "round_double x \<le> round_double y"
proof -
  obtain e where e: "2 powi e \<le> x" "x < 2 powi (e + 1)" "- 1022 \<le> e" "e \<le> 1023"
    using binade_exists [of x] assms by force
  obtain d where d: "2 powi d \<le> y" "y < 2 powi (d + 1)" "- 1022 \<le> d" "d \<le> 1023"
    using binade_exists [of y] assms by force
  have "(2::real) powi e < 2 powi (d + 1)" using e(1) assms(2) d(2) by linarith
  then have "e < d + 1" by (rule powi_less_imp)
  then have ed: "e \<le> d" by simp
  show ?thesis
  proof (cases "e = d")
    case True
    have "x * 2 powi (52 - e) \<le> y * 2 powi (52 - e)"
      using assms(2) by (simp add: mult_right_mono)
    then have "round_half_even (x * 2 powi (52 - e)) \<le> round_half_even (y * 2 powi (52 - e))" by (rule round_half_even_mono)
    then have "real_of_int (round_half_even (x * 2 powi (52 - e))) * 2 powi (e - 52)
        \<le> of_int (round_half_even (y * 2 powi (52 - e))) * 2 powi (e - 52)"
      by (simp add: mult_right_mono)
    then show ?thesis
      using round_double_binade [OF e] round_double_binade [OF d] True by simp
  next
    case False
    with ed have "e + 1 \<le> d" by simp
    then have "(2::real) powi (e + 1) \<le> 2 powi d" by (simp add: power_int_increasing)
    then show ?thesis
      using round_double_in_binade [OF e] round_double_in_binade [OF d] by linarith
  qed
qed

lemma round_double_unit:
  assumes "0 \<le> x" "x < 1"
  shows "0 \<le> round_double x \<and> round_double x \<le> 1"
proof -
  define u where "u = binade x - 52"
  define k where "k = nat (- u)"
  have "x < 2 powi (- 1 + 1)" using assms by simp
  then have "binade x \<le> max (- 1022) (- 1)"
    using binade_search_bounds [of "- 1022" 2045 "\<bar>x\<bar>" "- 1"] assms unfolding binade_def by simp
  then have u: "u \<le> 0" by (simp add: u_def)
  then have pk: "(2::real) powi u = 1 / 2 ^ k"
    by (simp add: k_def power_int_def field_simps)
  have "real_of_int 0 \<le> x * 2 ^ k" using assms by simp
  then have lo: "0 \<le> round_half_even (x * 2 ^ k)" by (rule round_half_even_lower)
  have "x * 2 ^ k \<le> 1 * 2 ^ k" using assms by (intro mult_right_mono) auto
  then have "x * 2 ^ k \<le> real_of_int (2 ^ k)" by simp
  then have "round_half_even (x * 2 ^ k) \<le> 2 ^ k" by (rule round_half_even_upper)
  then have "real_of_int (round_half_even (x * 2 ^ k)) \<le> real_of_int (2 ^ k)"
    using of_int_le_iff by blast
  then have hi: "real_of_int (round_half_even (x * 2 ^ k)) / 2 ^ k \<le> 1"
    by (simp add: divide_le_eq)
  have "round_double x = real_of_int (round_half_even (x * 2 ^ k)) / 2 ^ k"
    by (simp add: round_double_def Let_def pk flip: u_def)
  with lo hi show ?thesis by simp
qed


lemma round_double_eval:
  assumes "2 powi e \<le> x" "x < 2 powi (e + 1)" "- 1022 \<le> e" "e \<le> 1023"
    and "\<bar>x * 2 powi (52 - e) - of_int n\<bar> < 1 / 2"
  shows "round_double x = of_int n * 2 powi (e - 52)"
  using round_double_binade [OF assms(1-4)] round_half_even_near [OF assms(5)] by simp

lemma round_double_0: "round_double 0 = 0"
  using round_half_even_of_int [of 0] by (simp add: round_double_def)

lemma round_double_1: "round_double 1 = 1"
  using round_double_eval [of 0 1 "2 ^ 52"] by simp

lemma round_double_2: "round_double 2 = 2"
  using round_double_eval [of 1 2 "2 ^ 52"] by simp

lemma round_double_tenth: "round_double (1 / 10) = double_tenth"
  using round_double_eval [of "- 4" "1 / 10" 7205759403792794] by (simp add: double_tenth_def)

lemma round_double_c: "round_double double_tenth = double_tenth"
  using round_double_eval [of "- 4" double_tenth 7205759403792794] by (simp add: double_tenth_def)

lemma round_double_2c: "round_double (2 * double_tenth) = 2 * double_tenth"
  using round_double_eval [of "- 3" "2 * double_tenth" 7205759403792794] by (simp add: double_tenth_def)

lemma round_double_4c: "round_double (4 * double_tenth) = 4 * double_tenth"
  using round_double_eval [of "- 2" "4 * double_tenth" 7205759403792794] by (simp add: double_tenth_def)

lemma round_double_8c: "round_double (8 * double_tenth) = 8 * double_tenth"
  using round_double_eval [of "- 1" "8 * double_tenth" 7205759403792794]
  by (simp add: double_tenth_def)

lemma round_double_4: "round_double 4 = 4"
  using round_double_eval [of 2 4 "2 ^ 52"] by simp

lemma round_double_1c: "round_double (1 + double_tenth) = 4953959590107546 / 2 ^ 52"
  using round_double_eval [of 0 "1 + double_tenth" 4953959590107546] by (simp add: double_tenth_def)

lemma round_double_12c: "round_double (1 + 2 * double_tenth) = 5404319552844595 / 2 ^ 52"
  using round_double_eval [of 0 "1 + 2 * double_tenth" 5404319552844595] by (simp add: double_tenth_def)

lemma round_double_22c: "round_double (2 + 2 * double_tenth) = 4953959590107546 / 2 ^ 51"
  using round_double_eval [of 1 "2 + 2 * double_tenth" 4953959590107546] by (simp add: double_tenth_def)

lemma round_double_24c: "round_double (2 + 4 * double_tenth) = 5404319552844595 / 2 ^ 51"
  using round_double_eval [of 1 "2 + 4 * double_tenth" 5404319552844595] by (simp add: double_tenth_def)

lemma round_double_44c: "round_double (4 + 4 * double_tenth) = 4953959590107546 / 2 ^ 50"
  using round_double_eval [of 2 "4 + 4 * double_tenth" 4953959590107546]
  by (simp add: double_tenth_def)

lemma round_double_48c: "round_double (4 + 8 * double_tenth) = 5404319552844595 / 2 ^ 50"
  using round_double_eval [of 2 "4 + 8 * double_tenth" 5404319552844595]
  by (simp add: double_tenth_def)

lemma to_float_small:
  "\<bar>round_double x\<bar> \<le> 8 \<Longrightarrow> to_float x = Finite (round_double x)"
proof -
  assume "\<bar>round_double x\<bar> \<le> 8"
  moreover have "(8::real) < 2 ^ 1024" by simp
  ultimately have "round_double x < 2 ^ 1024" "- (2 ^ 1024) < round_double x" by linarith+
  then show ?thesis by (simp add: to_float_def)
qed



lemma round_double_mono_small:
  assumes "1 / 16 \<le> x" "x \<le> y" "y \<le> 8"
  shows "round_double x \<le> round_double y"
proof -
  have "(2::real) powi (- 1022) \<le> 1 / 16" by simp
  moreover have "(8::real) < 2 powi 1024" by simp
  ultimately show ?thesis using assms by (intro round_double_mono) linarith+
qed

lemma round_double_frac:
  "0 \<le> round_double (frac (now::real)) \<and> round_double (frac now) \<le> 1"
  by (intro round_double_unit) (simp_all add: frac_lt_1)

lemma round_double_one_plus:
  assumes "0 \<le> f" "f \<le> 1"
  shows "1 \<le> round_double (1 + f) \<and> round_double (1 + f) \<le> 2"
proof (cases "f = 1")
  case True
  then show ?thesis by (simp add: round_double_2)
next
  case False
  with assms have "2 powi 0 \<le> 1 + f" "1 + f < 2 powi (0 + 1)" by simp_all
  from round_double_in_binade [OF this] show ?thesis by simp
qed

lemma double_tenth_range: "1 / 16 \<le> double_tenth" "double_tenth \<le> 1 / 8"
  by (simp_all add: double_tenth_def)

lemma round_double_jitter:
  assumes "1 \<le> y" "y \<le> 2" "k = 1 \<or> k = 2 \<or> k = 4"
  shows "k * double_tenth \<le> round_double (k * double_tenth * y)
    \<and> round_double (k * double_tenth * y) \<le> 2 * k * double_tenth"
proof -
  have lo: "1 / 16 \<le> k * double_tenth" and hi: "2 * k * double_tenth \<le> 8"
    using assms(3) double_tenth_range by auto
  then have pos: "0 \<le> k * double_tenth" by linarith
  have "k * double_tenth * 1 \<le> k * double_tenth * y"
    using assms(1) pos by (intro mult_left_mono)
  then have a: "k * double_tenth \<le> k * double_tenth * y" by simp
  have "k * double_tenth * y \<le> k * double_tenth * 2"
    using assms(2) pos by (intro mult_left_mono)
  then have b: "k * double_tenth * y \<le> 2 * k * double_tenth" by simp
  have "round_double (k * double_tenth) \<le> round_double (k * double_tenth * y)"
    using lo a b hi by (intro round_double_mono_small) linarith+
  moreover have "round_double (k * double_tenth * y) \<le> round_double (2 * k * double_tenth)"
    using lo a b hi by (intro round_double_mono_small) linarith+
  moreover have "round_double (k * double_tenth) = k * double_tenth"
    "round_double (2 * k * double_tenth) = 2 * k * double_tenth"
    using assms(3) round_double_c round_double_2c round_double_4c round_double_8c by auto
  ultimately show ?thesis by simp
qed

lemma round_double_sum_1:
  assumes "double_tenth \<le> p" "p \<le> 2 * double_tenth"
  shows "11 / 10 \<le> round_double (1 + p) \<and> round_double (1 + p) < 12 / 10"
proof -
  have "round_double (1 + double_tenth) \<le> round_double (1 + p)"
    using assms double_tenth_range by (intro round_double_mono_small) simp_all
  moreover have "round_double (1 + p) \<le> round_double (1 + 2 * double_tenth)"
    using assms double_tenth_range by (intro round_double_mono_small) simp_all
  ultimately show ?thesis unfolding round_double_1c round_double_12c by simp
qed

lemma round_double_sum_2:
  assumes "2 * double_tenth \<le> p" "p \<le> 4 * double_tenth"
  shows "22 / 10 \<le> round_double (2 + p) \<and> round_double (2 + p) < 24 / 10"
proof -
  have "round_double (2 + 2 * double_tenth) \<le> round_double (2 + p)"
    using assms double_tenth_range by (intro round_double_mono_small) simp_all
  moreover have "round_double (2 + p) \<le> round_double (2 + 4 * double_tenth)"
    using assms double_tenth_range by (intro round_double_mono_small) simp_all
  ultimately show ?thesis unfolding round_double_22c round_double_24c by simp
qed

lemma round_double_sum_3:
  assumes "4 * double_tenth \<le> p" "p \<le> 8 * double_tenth"
  shows "44 / 10 \<le> round_double (4 + p) \<and> round_double (4 + p) < 48 / 10"
proof -
  have "round_double (4 + 4 * double_tenth) \<le> round_double (4 + p)"
    using assms double_tenth_range by (intro round_double_mono_small) simp_all
  moreover have "round_double (4 + p) \<le> round_double (4 + 8 * double_tenth)"
    using assms double_tenth_range by (intro round_double_mono_small) simp_all
  ultimately show ?thesis unfolding round_double_44c round_double_48c by simp
qed

lemma binade_search_none: "2 powi (e + int n) \<le> x \<Longrightarrow> binade_search n e x = e + int n"
proof (induction n arbitrary: e)
  case 0
  then show ?case by simp
next
  case (Suc n)
  have "(2::real) powi (e + 1) \<le> 2 powi (e + int (Suc n))"
    by (intro power_int_increasing) simp_all
  with Suc.prems have "\<not> x < 2 powi (e + 1)" by linarith
  moreover have "binade_search n (e + 1) x = e + 1 + int n"
    using Suc.prems by (intro Suc.IH) (simp add: algebra_simps)
  ultimately show ?case by simp
qed

lemma round_double_pow2: "n \<le> 1023 \<Longrightarrow> round_double (2 ^ n) = 2 ^ n"
proof -
  assume n: "n \<le> 1023"
  have p: "(2::real) powi int n = 2 ^ n" by simp
  have "(2::real) ^ n * 2 powi (52 - int n) = 2 powi (int n + (52 - int n))"
    using power_int_add [of "2::real" "int n" "52 - int n"] p by simp
  then have m: "(2::real) ^ n * 2 powi (52 - int n) = real_of_int (2 ^ 52)" by simp
  have "(2::real) powi (int n + 1) = 2 ^ n * 2"
    using power_int_add [of "2::real" "int n" 1] p by simp
  then have "round_double (2 ^ n) = of_int (round_half_even (2 ^ n * 2 powi (52 - int n))) * 2 powi (int n - 52)"
    using n p by (intro round_double_binade) simp_all
  also have "\<dots> = 2 ^ 52 * 2 powi (int n - 52)"
    unfolding m round_half_even_of_int by simp
  also have "\<dots> = 2 powi (52 + (int n - 52))"
    using power_int_add [of "2::real" 52 "int n - 52"] by simp
  finally show ?thesis using p by simp
qed

lemma round_double_pow2_overflow: "1024 \<le> n \<Longrightarrow> 2 ^ 1024 \<le> round_double (2 ^ n)"
proof -
  assume n: "1024 \<le> n"
  have "(2::real) powi 1023 \<le> 2 powi int n"
    using n by (intro power_int_increasing) simp_all
  then have "(2::real) powi (- 1022 + int 2045) \<le> \<bar>2 ^ n\<bar>" by simp
  then have b: "binade (2 ^ n) = 1023"
    unfolding binade_def using binade_search_none [of "- 1022" 2045 "\<bar>2 ^ n\<bar>"] by simp
  have ge: "(2::real) ^ 1024 \<le> 2 ^ n" using n by (intro power_increasing) simp_all
  then have "real_of_int (2 ^ 53) \<le> 2 ^ n / 2 ^ 971" by (simp add: le_divide_eq)
  then have "2 ^ 53 \<le> round_half_even (2 ^ n / 2 ^ 971)" by (rule round_half_even_lower)
  then have "real_of_int (2 ^ 53) \<le> real_of_int (round_half_even (2 ^ n / 2 ^ 971))"
    using of_int_le_iff by blast
  then have "real_of_int (2 ^ 53) * 2 ^ 971 \<le> real_of_int (round_half_even (2 ^ n / 2 ^ 971)) * 2 ^ 971"
    by (intro mult_right_mono) simp_all
  moreover have "round_double (2 ^ n) = real_of_int (round_half_even (2 ^ n / 2 ^ 971)) * 2 ^ 971"
    by (simp add: round_double_def b)
  ultimately show ?thesis by simp
qed



lemma int_to_float_pow2:
  assumes "n \<le> 1023"
  shows "int_to_float (2 ^ n) = Inr (Finite (2 ^ n))"
proof -
  have "(2::real) ^ n < 2 ^ 1024" using assms by (intro power_strict_increasing) simp_all
  moreover have "- (2 ^ 1024) < (2::real) ^ n"
    by (rule less_le_trans [of _ 0]) simp_all
  ultimately have "to_float (2 ^ n) = Finite (2 ^ n)"
    using round_double_pow2 [OF assms] by (simp add: to_float_def)
  then show ?thesis by (simp add: int_to_float_def)
qed

lemma int_to_float_pow2_overflow:
  assumes "1024 \<le> n"
  shows "int_to_float (2 ^ n) = Inl (Raised OverflowError)"
proof -
  have "to_float (2 ^ n) = PosInf"
    using round_double_pow2_overflow [OF assms] by (simp add: to_float_def)
  then show ?thesis by (simp add: int_to_float_def)
qed

lemma get_retry_delay_overflow:
  "1025 \<le> attempt \<Longrightarrow>
   get_retry_delay now attempt base_delay max_delay = Inl (Raised OverflowError)"
proof -
  assume "1025 \<le> attempt"
  then have "1024 \<le> nat (attempt - 1)" "0 \<le> attempt - 1" by simp_all
  then show ?thesis
    using int_to_float_pow2_overflow [of "nat (attempt - 1)"]
    by (simp add: get_retry_delay_def times_pow2_def)
qed

lemma get_retry_delay_in_range:
  assumes "1 \<le> attempt" "attempt \<le> 1024"
  shows "get_retry_delay now attempt base_delay max_delay =
        (let delay = py_min (f_mul base_delay (Finite (2 ^ nat (attempt - 1)))) max_delay
         in Inr (f_add delay
                   (f_mul (f_mul delay (to_float 0.1))
                      (f_add (Finite 1) (to_float (frac now))))))"
proof -
  have "nat (attempt - 1) \<le> 1023" "0 \<le> attempt - 1" using assms by simp_all
  then show ?thesis
    using int_to_float_pow2 [of "nat (attempt - 1)"]
    by (simp add: get_retry_delay_def times_pow2_def Let_def)
qed

lemma to_float_tenth: "to_float 0.1 = Finite double_tenth"
proof -
  have "round_double 0.1 = double_tenth" using round_double_tenth by simp
  moreover have "\<bar>double_tenth\<bar> \<le> 4" by (simp add: double_tenth_def)
  ultimately show ?thesis using to_float_small [of "0.1"] by simp
qed

lemma jitter_chain:
  assumes "k = 1 \<or> k = 2 \<or> k = 4"
  shows "\<exists>p. f_mul (f_mul (Finite k) (to_float 0.1)) (f_add (Finite 1) (to_float (frac now)))
            = Finite p \<and> k * double_tenth \<le> p \<and> p \<le> 2 * k * double_tenth"
proof -
  define f where "f = round_double (frac now)"
  define y where "y = round_double (1 + f)"
  define p where "p = round_double (k * double_tenth * y)"
  have f: "0 \<le> f" "f \<le> 1" using round_double_frac [of now] by (simp_all add: f_def)
  have y: "1 \<le> y" "y \<le> 2" using round_double_one_plus [OF f] by (simp_all add: y_def)
  have p: "k * double_tenth \<le> p" "p \<le> 2 * k * double_tenth"
    using round_double_jitter [OF y assms] by (simp_all add: p_def)
  have kt: "round_double (k * double_tenth) = k * double_tenth"
    using assms round_double_c round_double_2c round_double_4c by auto
  have small: "\<bar>k * double_tenth\<bar> \<le> 8" "\<bar>p\<bar> \<le> 8"
    using assms p double_tenth_range by auto
  have t1: "to_float (frac now) = Finite f"
    unfolding f_def using f by (intro to_float_small) (simp add: f_def)
  have t2: "to_float (1 + f) = Finite y"
    unfolding y_def using y by (intro to_float_small) (simp add: y_def)
  have t3: "to_float (k * double_tenth) = Finite (k * double_tenth)"
    using to_float_small [of "k * double_tenth"] small kt by simp
  have t4: "to_float (k * double_tenth * y) = Finite p"
    unfolding p_def using small by (intro to_float_small) (simp add: p_def)
  have "f_mul (f_mul (Finite k) (to_float 0.1)) (f_add (Finite 1) (to_float (frac now)))
      = Finite p"
    by (simp add: to_float_tenth t1 t2 t3 t4)
  with p show ?thesis by blast
qed

lemma delay_first_retry:
  "\<exists>d. get_retry_delay now 1 (Finite 1) (Finite 60) = Inr (Finite d)
     \<and> 11 / 10 \<le> d \<and> d < 12 / 10"
proof -
  obtain p where p: "f_mul (f_mul (Finite 1) (to_float 0.1))
        (f_add (Finite 1) (to_float (frac now))) = Finite p"
      "double_tenth \<le> p" "p \<le> 2 * double_tenth"
    using jitter_chain [of 1 now] by auto
  have s: "11 / 10 \<le> round_double (1 + p)" "round_double (1 + p) < 12 / 10"
    using round_double_sum_1 [OF p(2,3)] by simp_all
  then have t: "to_float (1 + p) = Finite (round_double (1 + p))"
    by (intro to_float_small) simp
  have m: "to_float 1 = Finite 1" using to_float_small [of 1] by (simp add: round_double_1)
  have "get_retry_delay now 1 (Finite 1) (Finite 60) = Inr (Finite (round_double (1 + p)))"
    using get_retry_delay_in_range [of 1 now "Finite 1" "Finite 60"]
    by (simp add: Let_def py_min_def m p(1) t)
  with s show ?thesis by blast
qed

lemma delay_second_retry:
  "\<exists>d. get_retry_delay now 2 (Finite 1) (Finite 60) = Inr (Finite d)
     \<and> 22 / 10 \<le> d \<and> d < 24 / 10"
proof -
  obtain p where p: "f_mul (f_mul (Finite 2) (to_float 0.1))
        (f_add (Finite 1) (to_float (frac now))) = Finite p"
      "2 * double_tenth \<le> p" "p \<le> 4 * double_tenth"
    using jitter_chain [of 2 now] by auto
  have s: "22 / 10 \<le> round_double (2 + p)" "round_double (2 + p) < 24 / 10"
    using round_double_sum_2 [OF p(2,3)] by simp_all
  then have t: "to_float (2 + p) = Finite (round_double (2 + p))"
    by (intro to_float_small) simp
  have m: "to_float 2 = Finite 2" using to_float_small [of 2] by (simp add: round_double_2)
  have "get_retry_delay now 2 (Finite 1) (Finite 60) = Inr (Finite (round_double (2 + p)))"
    using get_retry_delay_in_range [of 2 now "Finite 1" "Finite 60"]
    by (simp add: Let_def py_min_def m p(1) t)
  with s show ?thesis by blast
qed

lemma delay_third_retry:
  "\<exists>d. get_retry_delay now 3 (Finite 1) (Finite 60) = Inr (Finite d)
     \<and> 44 / 10 \<le> d \<and> d < 48 / 10"
proof -
  obtain p where p: "f_mul (f_mul (Finite 4) (to_float 0.1))
        (f_add (Finite 1) (to_float (frac now))) = Finite p"
      "4 * double_tenth \<le> p" "p \<le> 8 * double_tenth"
    using jitter_chain [of 4 now] by auto
  have s: "44 / 10 \<le> round_double (4 + p)" "round_double (4 + p) < 48 / 10"
    using round_double_sum_3 [OF p(2,3)] by simp_all
  then have t: "to_float (4 + p) = Finite (round_double (4 + p))"
    by (intro to_float_small) simp
  have m: "to_float 4 = Finite 4" using to_float_small [of 4] by (simp add: round_double_4)
  have "get_retry_delay now 3 (Finite 1) (Finite 60) = Inr (Finite (round_double (4 + p)))"
    using get_retry_delay_in_range [of 3 now "Finite 1" "Finite 60"]
    by (simp add: Let_def py_min_def m p(1) t)
  with s show ?thesis by blast
qed

lemma to_float_values:
  "to_float 0 = Finite 0" "to_float 1 = Finite 1" "to_float 2 = Finite 2"
  "to_float double_tenth = Finite double_tenth"
  "to_float (2 * double_tenth) = Finite (2 * double_tenth)"
  "to_float (1 + double_tenth) = Finite (4953959590107546 / 2 ^ 52)"
  "to_float (2 + 2 * double_tenth) = Finite (4953959590107546 / 2 ^ 51)"
proof -
  have d: "\<bar>double_tenth\<bar> \<le> 1" by (simp add: double_tenth_def)
  show "to_float 0 = Finite 0"
    using to_float_small [of 0] by (simp add: round_double_0)
  show "to_float 1 = Finite 1"
    using to_float_small [of 1] by (simp add: round_double_1)
  show "to_float 2 = Finite 2"
    using to_float_small [of 2] by (simp add: round_double_2)
  show "to_float double_tenth = Finite double_tenth"
    using to_float_small [of double_tenth] d by (simp add: round_double_c)
  show "to_float (2 * double_tenth) = Finite (2 * double_tenth)"
    using to_float_small [of "2 * double_tenth"] d by (simp add: round_double_2c)
  show "to_float (1 + double_tenth) = Finite (4953959590107546 / 2 ^ 52)"
    using to_float_small [of "1 + double_tenth"] unfolding round_double_1c by simp
  show "to_float (2 + 2 * double_tenth) = Finite (4953959590107546 / 2 ^ 51)"
    using to_float_small [of "2 + 2 * double_tenth"] unfolding round_double_22c by simp
qed

section \<open>The retry policy\<close>

text \<open>
  Claim C1, as the code has it. With \<^verbatim>\<open>max_attempts=3\<close> and the default delays, an
  operation whose first two calls raise a transport timeout and whose third call returns
  \<open>v\<close> is called exactly three times and the wrapper returns \<open>v\<close>, after sleeping 1 and
  2 seconds. An operation whose first three calls raise a transport timeout is called
  exactly three times as well; the caller then receives a \<^verbatim>\<open>RetryError\<close> that holds the
  last timeout, not the timeout itself.
\<close>

theorem retry_on_failure_three_attempts:
  "(func sa = (Inl ea, sb) \<and> func sb = (Inl eb, sc) \<and> func sc = (Inr v, sd)
      \<and> isinstance ea Timeout \<and> isinstance eb Timeout
    \<longrightarrow> retry_on_failure 3 1 60 func sa =
          \<lparr>outcome = Inr v, final_state = sd, calls = 3, slept = [1, 2]\<rparr>)
   \<and> (func sa = (Inl ea, sb) \<and> func sb = (Inl eb, sc) \<and> func sc = (Inl ec, sd)
      \<and> isinstance ea Timeout \<and> isinstance eb Timeout \<and> isinstance ec Timeout
    \<longrightarrow> retry_on_failure 3 1 60 func sa =
          \<lparr>outcome = Inl (RetryExc ec), final_state = sd, calls = 3, slept = [1, 2]\<rparr>)"
proof (intro conjI impI)
  assume a: "func sa = (Inl ea, sb) \<and> func sb = (Inl eb, sc) \<and> func sc = (Inr v, sd)
      \<and> isinstance ea Timeout \<and> isinstance eb Timeout"
  have "retry_on_failure 3 1 60 func sa = retrying 3 1 60 func 2 [1] sb"
    using a by (simp add: retry_on_failure_def retrying_again timeout_selected default_waits)
  also have "\<dots> = retrying 3 1 60 func 3 [1, 2] sc"
    using a by (simp add: retrying_again timeout_selected default_waits)
  also have "\<dots> = \<lparr>outcome = Inr v, final_state = sd, calls = 3, slept = [1, 2]\<rparr>"
    using a by (simp add: retrying_returns)
  finally show "retry_on_failure 3 1 60 func sa =
          \<lparr>outcome = Inr v, final_state = sd, calls = 3, slept = [1, 2]\<rparr>" .
next
  assume a: "func sa = (Inl ea, sb) \<and> func sb = (Inl eb, sc) \<and> func sc = (Inl ec, sd)
      \<and> isinstance ea Timeout \<and> isinstance eb Timeout \<and> isinstance ec Timeout"
  have "retry_on_failure 3 1 60 func sa = retrying 3 1 60 func 2 [1] sb"
    using a by (simp add: retry_on_failure_def retrying_again timeout_selected default_waits)
  also have "\<dots> = retrying 3 1 60 func 3 [1, 2] sc"
    using a by (simp add: retrying_again timeout_selected default_waits)
  also have "\<dots> =
      \<lparr>outcome = Inl (RetryExc ec), final_state = sd, calls = 3, slept = [1, 2]\<rparr>"
    using a by (simp add: retrying_exhausted timeout_selected)
  finally show "retry_on_failure 3 1 60 func sa =
          \<lparr>outcome = Inl (RetryExc ec), final_state = sd, calls = 3, slept = [1, 2]\<rparr>" .
qed

text \<open>
  Both scenarios on concrete operations: one that times out twice and then returns 7,
  and one that times out at every call.
\<close>

theorem retry_on_failure_three_attempts_witness:
  "retry_on_failure 3 1 60 (flaky_op 2 (ExtExc Timeout ''timed out'') (PyInt 7)) 0 =
     \<lparr>outcome = Inr (PyInt 7), final_state = 3, calls = 3, slept = [1, 2]\<rparr>
   \<and> retry_on_failure 3 1 60
       (failing_op (ExtExc Timeout ''timed out'') :: nat \<Rightarrow> (exc + py_value) \<times> nat) 0 =
     \<lparr>outcome = Inl (RetryExc (ExtExc Timeout ''timed out'')), final_state = 3, calls = 3,
        slept = [1, 2]\<rparr>"
  using retry_on_failure_three_attempts
      [where func = "flaky_op 2 (ExtExc Timeout ''timed out'') (PyInt 7)" and sa = 0
         and ea = "ExtExc Timeout ''timed out''" and sb = 1
         and eb = "ExtExc Timeout ''timed out''" and sc = 2 and v = "PyInt 7" and sd = 3]
    retry_on_failure_three_attempts
      [where func = "failing_op (ExtExc Timeout ''timed out'')" and sa = 0
         and ea = "ExtExc Timeout ''timed out''" and sb = 1
         and eb = "ExtExc Timeout ''timed out''" and sc = 2
         and ec = "ExtExc Timeout ''timed out''" and sd = 3]
  by (simp add: flaky_op_def failing_op_def isinstance_def)

text \<open>
  Claim C1 as it is written fails on the operation that always times out: the outcome
  of the wrapper is not the timeout that the operation raised.
\<close>

theorem retry_exhausted_counterexample:
  "retry_on_failure 3 1 60
       (failing_op (ExtExc Timeout ''timed out'') :: nat \<Rightarrow> (exc + py_value) \<times> nat) 0 =
     \<lparr>outcome = Inl (RetryExc (ExtExc Timeout ''timed out'')), final_state = 3, calls = 3,
        slept = [1, 2]\<rparr>
   \<and> outcome (retry_on_failure 3 1 60
        (failing_op (ExtExc Timeout ''timed out'') :: nat \<Rightarrow> (exc + py_value) \<times> nat) 0)
       \<noteq> Inl (ExtExc Timeout ''timed out'')"
proof -
  have c: "retry_if_exception_type (ExtExc Timeout ''timed out'')"
    by (simp add: retry_if_exception_type_def isinstance_def)
  have "retry_on_failure 3 1 60
       (failing_op (ExtExc Timeout ''timed out'') :: nat \<Rightarrow> (exc + py_value) \<times> nat) 0 =
     \<lparr>outcome = Inl (RetryExc (ExtExc Timeout ''timed out'')), final_state = 3, calls = 3,
        slept = [1, 2]\<rparr>"
    by (simp add: retry_on_failure_def
        retrying.simps [of _ _ _ "failing_op (ExtExc Timeout ''timed out'')"]
        failing_op_def c stop_after_attempt_def default_waits Let_def eval_nat_numeral)
  then show ?thesis by simp
qed



section \<open>The response classifier on success and on failure\<close>

text \<open>
  Claim C3 does not hold of the code. A response with status 201 and the JSON body
  \<^verbatim>\<open>{}\<close> is not returned: the classifier raises an \<^verbatim>\<open>APIError\<close>, since it compares the
  status with 200 only.
\<close>

theorem handle_response_created_raises:
  "handle_response
     \<lparr>status_code = 201, resp_text = ''{}'', json = Some (PyDict []), headers = []\<rparr> ''GitHub''
   = Inl (APIExc APIError ''GitHub API error: 201'' (Some 201) (Some (PyDict [])))"
  by code_simp

text \<open>
  Claim C6, as the code has it. For a response whose status is not a 2xx one and whose
  body decodes to a JSON object, or to an array or a string in which \<^verbatim>\<open>message\<close> does
  not occur, the error raised carries the decoded body as its response and the status
  as its status code; its message is the service name, \<^verbatim>\<open>API error:\<close> and the status,
  followed by \<^verbatim>\<open> - \<close> and the text of the \<^verbatim>\<open>message\<close> entry when the body is an object
  that has one, and by nothing otherwise.
\<close>

theorem handle_response_error_payload:
  "(status_code r < 200 \<or> 299 < status_code r) \<and> json r = Some body
     \<and> (body = PyDict kvs \<or> (body = PyList xs \<and> PyStr ''message'' \<notin> set xs)
          \<or> (body = PyStr t \<and> \<not> contains_str ''message'' t))
   \<longrightarrow>
     handle_response r service =
       Inl (APIExc
              (if status_code r = 401 \<or> status_code r = 403 then AuthenticationError
               else if status_code r = 429 then RateLimitError else APIError)
              (service @ '' API error: '' @ show_int (status_code r)
                 @ (case body of
                      PyDict kvs \<Rightarrow>
                        (case map_of kvs ''message'' of
                           None \<Rightarrow> [] | Some v \<Rightarrow> '' - '' @ py_str v)
                    | _ \<Rightarrow> []))
              (Some (status_code r)) (Some body))"
proof
  assume a: "(status_code r < 200 \<or> 299 < status_code r) \<and> json r = Some body
     \<and> (body = PyDict kvs \<or> (body = PyList xs \<and> PyStr ''message'' \<notin> set xs)
          \<or> (body = PyStr t \<and> \<not> contains_str ''message'' t))"
  then have st: "status_code r \<noteq> 200" by auto
  from a consider (obj) "body = PyDict kvs"
    | (arr) "body = PyList xs" "PyStr ''message'' \<notin> set xs"
    | (str) "body = PyStr t" "\<not> contains_str ''message'' t"
    by blast
  then show "handle_response r service =
       Inl (APIExc
              (if status_code r = 401 \<or> status_code r = 403 then AuthenticationError
               else if status_code r = 429 then RateLimitError else APIError)
              (service @ '' API error: '' @ show_int (status_code r)
                 @ (case body of
                      PyDict kvs \<Rightarrow>
                        (case map_of kvs ''message'' of
                           None \<Rightarrow> [] | Some v \<Rightarrow> '' - '' @ py_str v)
                    | _ \<Rightarrow> []))
              (Some (status_code r)) (Some body))"
  proof cases
    case obj
    with a st show ?thesis
      by (simp add: handle_response_def append_detail_dict raise_for_status_def
          response_json_def Let_def)
  next
    case arr
    with a st show ?thesis
      by (simp add: handle_response_def append_detail_def raise_for_status_def
          response_json_def Let_def)
  next
    case str
    with a st show ?thesis
      by (simp add: handle_response_def append_detail_def raise_for_status_def
          response_json_def Let_def)
  qed
qed

text \<open>
  A 404 response whose body is \<^verbatim>\<open>{"message": "Not Found"}\<close>, and a 502 response whose
  body is the empty JSON array.
\<close>

theorem handle_response_error_payload_witness:
  \<open>handle_response
     \<lparr>status_code = 404, resp_text = ''{"message": "Not Found"}'',
        json = Some (PyDict [(''message'', PyStr ''Not Found'')]), headers = []\<rparr> ''GitHub''
   = Inl (APIExc APIError ''GitHub API error: 404 - Not Found'' (Some 404)
            (Some (PyDict [(''message'', PyStr ''Not Found'')])))
   \<and> handle_response
     \<lparr>status_code = 502, resp_text = ''[]'', json = Some (PyList []), headers = []\<rparr>
     ''GitHub''
   = Inl (APIExc APIError ''GitHub API error: 502'' (Some 502) (Some (PyList [])))\<close>
proof -
  have s: "show_int 404 = ''404''" "show_int 502 = ''502''"
    by code_simp+
  show ?thesis
    using handle_response_error_payload
      [where r = \<open>\<lparr>status_code = 404, resp_text = ''{"message": "Not Found"}'',
        json = Some (PyDict [(''message'', PyStr ''Not Found'')]), headers = []\<rparr>\<close>
        and body = "PyDict [(''message'', PyStr ''Not Found'')]"
        and kvs = "[(''message'', PyStr ''Not Found'')]" and service = "''GitHub''"]
      handle_response_error_payload
      [where r = "\<lparr>status_code = 502, resp_text = ''[]'', json = Some (PyList []),
        headers = []\<rparr>"
        and body = "PyList []" and xs = "[]" and service = "''GitHub''"]
    by (simp add: s)
qed

text \<open>
  Claim C6 as it is written fails on a 500 response whose body is the JSON object
  \<^verbatim>\<open>{}\<close>: the object has no \<^verbatim>\<open>message\<close> entry, and the message of the error ends with
  the status; the body text is not appended.
\<close>

theorem handle_response_no_detail_counterexample:
  "handle_response
     \<lparr>status_code = 500, resp_text = ''{}'', json = Some (PyDict []), headers = []\<rparr> ''Coda''
   = Inl (APIExc APIError ''Coda API error: 500'' (Some 500) (Some (PyDict [])))
   \<and> ''Coda API error: 500'' \<noteq> ''Coda API error: 500'' @ '' - '' @ ''{}''"
  by code_simp

text \<open>
  Claim C7 does not hold of the code. A 401 response whose body is not JSON does not
  raise an \<^verbatim>\<open>AuthenticationError\<close>: the \<^verbatim>\<open>raise\<close> statement decodes the body again, and
  the decoding error leaves the classifier. The cooldown does the same on a 429
  response, after it has slept.
\<close>

theorem handle_response_undecodable_raises:
  "handle_response
     \<lparr>status_code = 401, resp_text = ''Unauthorized'', json = None, headers = []\<rparr> ''GitHub''
   = Inl (Raised JSONDecodeError)
   \<and> handle_rate_limit
     \<lparr>status_code = 429, resp_text = ''Too Many Requests'', json = None, headers = []\<rparr>
     ''GitHub''
   = (Inl (Raised JSONDecodeError), [60])"
  by code_simp

section \<open>The backoff delay, the cooldown and the validator\<close>

text \<open>
  Claim C4, as the code has it. For an attempt number from 1 to 1024 the delay is the
  capped exponential \<open>min (base_delay * 2 ^ (attempt - 1)) max_delay\<close> plus a jitter of
  that delay times 0.1 times one plus the fractional second of the clock, each step
  rounded to a double. With a base of 1.0 and a cap of 60.0 the delay of the first
  retry (attempt number 1, the wait before attempt 2) lies in [1.1, 1.2) and the delay
  of the second retry (attempt number 2, the wait before attempt 3) lies in
  [2.2, 2.4), whatever the clock shows: the jitter is between 10 and 20 percent of the
  delay. For attempt number 3 the delay lies in [4.4, 4.8).
\<close>

theorem get_retry_delay_formula:
  "(1 \<le> attempt \<and> attempt \<le> 1024 \<longrightarrow>
      get_retry_delay now attempt base_delay max_delay =
        (let delay = py_min (f_mul base_delay (Finite (2 ^ nat (attempt - 1)))) max_delay
         in Inr (f_add delay
                   (f_mul (f_mul delay (to_float 0.1))
                      (f_add (Finite 1) (to_float (frac now)))))))
   \<and> (\<exists>d. get_retry_delay now 1 (Finite 1) (Finite 60) = Inr (Finite d)
          \<and> 1.1 \<le> d \<and> d < 1.2)
   \<and> (\<exists>d. get_retry_delay now 2 (Finite 1) (Finite 60) = Inr (Finite d)
          \<and> 2.2 \<le> d \<and> d < 2.4)
   \<and> (\<exists>d. get_retry_delay now 3 (Finite 1) (Finite 60) = Inr (Finite d)
          \<and> 4.4 \<le> d \<and> d < 4.8)"
proof (intro conjI impI)
  assume "1 \<le> attempt \<and> attempt \<le> 1024"
  then show "get_retry_delay now attempt base_delay max_delay =
        (let delay = py_min (f_mul base_delay (Finite (2 ^ nat (attempt - 1)))) max_delay
         in Inr (f_add delay
                   (f_mul (f_mul delay (to_float 0.1))
                      (f_add (Finite 1) (to_float (frac now))))))"
    by (simp add: get_retry_delay_in_range)
next
  show "\<exists>d. get_retry_delay now 1 (Finite 1) (Finite 60) = Inr (Finite d)
          \<and> 1.1 \<le> d \<and> d < 1.2"
    using delay_first_retry [of now] by simp
next
  show "\<exists>d. get_retry_delay now 2 (Finite 1) (Finite 60) = Inr (Finite d)
          \<and> 2.2 \<le> d \<and> d < 2.4"
    using delay_second_retry [of now] by simp
next
  show "\<exists>d. get_retry_delay now 3 (Finite 1) (Finite 60) = Inr (Finite d)
          \<and> 4.4 \<le> d \<and> d < 4.8"
    using delay_third_retry [of now] by simp
qed

text \<open>The delay of the first retry when the clock shows a full second.\<close>

theorem get_retry_delay_formula_witness:
  "get_retry_delay 0 1 (Finite 1) (Finite 60) = Inr (Finite (4953959590107546 / 2 ^ 52))"
  using get_retry_delay_formula
      [where attempt = 1 and now = 0 and base_delay = "Finite 1" and max_delay = "Finite 60"]
  by (simp add: py_min_def to_float_tenth to_float_values)

text \<open>
  Claim C4 as it is written fails when the clock shows a full second: the delay of
  the first retry is the double next to 1.1, which is not below 1.1, and the delay for
  attempt number 2 is the double next to 2.2; neither lies in [1.0, 1.1). For attempt
  number 1025 no delay is computed: the conversion of \<open>2 ^ 1024\<close> to a float raises
  \<^verbatim>\<open>OverflowError\<close>.
\<close>

theorem get_retry_delay_counterexample:
  "get_retry_delay 0 1 (Finite 1) (Finite 60) = Inr (Finite (4953959590107546 / 2 ^ 52))
   \<and> \<not> (4953959590107546 / 2 ^ 52 < (1.1 :: real))
   \<and> get_retry_delay 0 2 (Finite 1) (Finite 60) = Inr (Finite (4953959590107546 / 2 ^ 51))
   \<and> \<not> (4953959590107546 / 2 ^ 51 < (1.1 :: real))
   \<and> get_retry_delay 0 1025 (Finite 1) (Finite 60) = Inl (Raised OverflowError)"
proof -
  have "get_retry_delay 0 1 (Finite 1) (Finite 60)
      = Inr (Finite (4953959590107546 / 2 ^ 52))"
    using get_retry_delay_in_range [of 1 0 "Finite 1" "Finite 60"]
    by (simp add: py_min_def to_float_tenth to_float_values)
  moreover have "get_retry_delay 0 2 (Finite 1) (Finite 60)
      = Inr (Finite (4953959590107546 / 2 ^ 51))"
    using get_retry_delay_in_range [of 2 0 "Finite 1" "Finite 60"]
    by (simp add: py_min_def to_float_tenth to_float_values)
  moreover have "get_retry_delay 0 1025 (Finite 1) (Finite 60) = Inl (Raised OverflowError)"
    by (simp add: get_retry_delay_overflow)
  ultimately show ?thesis by simp
qed

text \<open>
  Claim C5 does not hold of the code. On a 429 response whose \<^verbatim>\<open>Retry-After\<close> header is
  a date, the header does not parse as an integer, yet the cooldown neither sleeps 60
  seconds nor raises a \<^verbatim>\<open>RateLimitError\<close>: the \<^verbatim>\<open>ValueError\<close> of the conversion leaves
  it before any sleep.
\<close>

theorem handle_rate_limit_date_header_raises:
  "handle_rate_limit
     \<lparr>status_code = 429, resp_text = ''{}'', json = Some (PyDict []),
        headers = [(''Retry-After'', ''Wed, 21 Oct 2015 07:28:00 GMT'')]\<rparr> ''Coda''
   = (Inl (Raised ValueError), [])"
  by code_simp

text \<open>
  Claim C8. The validator refuses a value that is not a dictionary; it refuses a
  dictionary that lacks a required key, with a message that lists the absent keys and
  no other, in the order they are required; it returns None when every required key is
  present. On \<^verbatim>\<open>{"a": 1}\<close> with \<^verbatim>\<open>a\<close> and \<^verbatim>\<open>b\<close> required the message lists \<^verbatim>\<open>b\<close>; on
  \<^verbatim>\<open>{"a": 1, "b": 2}\<close> the validator returns.
\<close>

theorem validate_input_contract:
  "((\<forall>kvs. data \<noteq> PyDict kvs) \<longrightarrow>
      validate_input data required_fields data_type =
        Inl (APIExc ValidationError (data_type @ '' must be a dictionary'') None None))
   \<and> (\<not> set required_fields \<subseteq> fst ` set kvs \<longrightarrow>
        (\<exists>absent. validate_input (PyDict kvs) required_fields data_type =
           Inl (APIExc ValidationError
                  (''Missing required fields in '' @ data_type @ '': ''
                     @ py_repr (PyList (map PyStr absent))) None None)
           \<and> absent = filter (\<lambda>f. f \<notin> fst ` set kvs) required_fields
           \<and> set absent = set required_fields - fst ` set kvs))
   \<and> (set required_fields \<subseteq> fst ` set kvs \<longrightarrow>
        validate_input (PyDict kvs) required_fields data_type = Inr ())
   \<and> validate_input (PyDict [(''a'', PyInt 1)]) [''a'', ''b''] ''input'' =
        Inl (APIExc ValidationError ''Missing required fields in input: ['b']'' None None)
   \<and> validate_input (PyDict [(''a'', PyInt 1), (''b'', PyInt 2)]) [''a'', ''b''] ''input''
        = Inr ()"
proof (intro conjI impI)
  assume "\<forall>kvs. data \<noteq> PyDict kvs"
  then show "validate_input data required_fields data_type =
        Inl (APIExc ValidationError (data_type @ '' must be a dictionary'') None None)"
    by (cases data) (simp_all add: validate_input_def)
next
  assume "\<not> set required_fields \<subseteq> fst ` set kvs"
  then have "filter (\<lambda>f. f \<notin> fst ` set kvs) required_fields \<noteq> []"
    by (auto simp: filter_empty_conv)
  then show "\<exists>absent. validate_input (PyDict kvs) required_fields data_type =
           Inl (APIExc ValidationError
                  (''Missing required fields in '' @ data_type @ '': ''
                     @ py_repr (PyList (map PyStr absent))) None None)
           \<and> absent = filter (\<lambda>f. f \<notin> fst ` set kvs) required_fields
           \<and> set absent = set required_fields - fst ` set kvs"
    by (auto simp: validate_input_def Let_def)
next
  assume "set required_fields \<subseteq> fst ` set kvs"
  then have "filter (\<lambda>f. f \<notin> fst ` set kvs) required_fields = []"
    by (auto simp: filter_empty_conv)
  then show "validate_input (PyDict kvs) required_fields data_type = Inr ()"
    by (simp add: validate_input_def)
next
  show "validate_input (PyDict [(''a'', PyInt 1)]) [''a'', ''b''] ''input'' =
        Inl (APIExc ValidationError ''Missing required fields in input: ['b']'' None None)"
    by (simp add: validate_input_def py_repr_str_def repr_char_def printable_def Let_def)
next
  show "validate_input (PyDict [(''a'', PyInt 1), (''b'', PyInt 2)]) [''a'', ''b''] ''input''
        = Inr ()"
    by (simp add: validate_input_def)
qed

text \<open>
  The three cases on the inputs of the test suite: None, a dictionary without the
  \<^verbatim>\<open>email\<close> key, and a dictionary with both keys.
\<close>

theorem validate_input_contract_witness:
  "validate_input PyNone [''name''] ''test data'' =
     Inl (APIExc ValidationError ''test data must be a dictionary'' None None)
   \<and> validate_input (PyDict [(''name'', PyStr ''test'')]) [''name'', ''email''] ''test data'' =
     Inl (APIExc ValidationError ''Missing required fields in test data: ['email']'' None None)
   \<and> validate_input (PyDict [(''name'', PyStr ''test''), (''email'', PyStr ''t@example.com'')])
       [''name'', ''email''] ''test data'' = Inr ()"
  using validate_input_contract
      [where data = PyNone and required_fields = "[''name'']" and data_type = "''test data''"
         and kvs = "[]"]
    validate_input_contract
      [where data = PyNone and required_fields = "[''name'', ''email'']"
         and data_type = "''test data''" and kvs = "[(''name'', PyStr ''test'')]"]
    validate_input_contract
      [where data = PyNone and required_fields = "[''name'', ''email'']"
         and data_type = "''test data''"
         and kvs = "[(''name'', PyStr ''test''), (''email'', PyStr ''t@example.com'')]"]
  by (simp add: py_repr_str_def repr_char_def printable_def Let_def)

section \<open>The two notions of a retryable error\<close>

text \<open>
  Claim C9. \<^verbatim>\<open>is_retryable_error\<close> holds exactly of the instances of
  \<^verbatim>\<open>ConnectionError\<close>, \<^verbatim>\<open>Timeout\<close>, \<^verbatim>\<open>RetryableError\<close> and \<^verbatim>\<open>HTTPError\<close>. It differs from
  the selection of the retry wrapper exactly on \<^verbatim>\<open>HTTPError\<close>, which the predicate
  accepts and the wrapper does not retry.
\<close>

theorem is_retryable_error_classes:
  "is_retryable_error e =
     (isinstance e ConnectionError \<or> isinstance e Timeout
        \<or> isinstance e RetryableError \<or> isinstance e HTTPError)
   \<and> is_retryable_error e =
       (class_of e \<in> {ConnectionError, Timeout, ConnectTimeout, ReadTimeout,
                       RetryableError, HTTPError})
   \<and> (is_retryable_error e \<noteq> retry_if_exception_type e) = (class_of e = HTTPError)
   \<and> is_retryable_error (ExtExc HTTPError m)
   \<and> \<not> retry_if_exception_type (ExtExc HTTPError m)"
  by (cases "class_of e")
    (simp_all add: is_retryable_error_def retry_if_exception_type_def isinstance_def)

text \<open>An HTTP error and a read timeout.\<close>

theorem is_retryable_error_classes_witness:
  "is_retryable_error (ExtExc HTTPError ''502 Bad Gateway'')
   \<and> \<not> retry_if_exception_type (ExtExc HTTPError ''502 Bad Gateway'')
   \<and> is_retryable_error (ExtExc ReadTimeout ''read timed out'')"
  using is_retryable_error_classes
      [of "ExtExc ReadTimeout ''read timed out''" "''502 Bad Gateway''"]
  by (simp add: isinstance_def)

section \<open>The cooldown on a response that is not rate limited\<close>

text \<open>
  Claim C10. On a response whose status is not 429 the cooldown returns None, sleeps
  not at all and raises nothing. Whenever it sleeps or raises, the status is 429.
\<close>

theorem handle_rate_limit_other_status:
  "(status_code r \<noteq> 429 \<longrightarrow> handle_rate_limit r service = (Inr (), []))
   \<and> (snd (handle_rate_limit r service) \<noteq> [] \<longrightarrow> status_code r = 429)
   \<and> ((\<exists>e. fst (handle_rate_limit r service) = Inl e) \<longrightarrow> status_code r = 429)"
  by (auto simp: handle_rate_limit_def)

text \<open>A 200 response passes, and a 429 response with no header sleeps and raises.\<close>

theorem handle_rate_limit_other_status_witness:
  "handle_rate_limit
     \<lparr>status_code = 200, resp_text = ''{}'', json = Some (PyDict []), headers = []\<rparr> ''Coda''
   = (Inr (), [])
   \<and> snd (handle_rate_limit
       \<lparr>status_code = 429, resp_text = ''{}'', json = Some (PyDict []), headers = []\<rparr>
       ''Coda'') = [60]"
proof -
  have c: "snd (handle_rate_limit
       \<lparr>status_code = 429, resp_text = ''{}'', json = Some (PyDict []), headers = []\<rparr>
       ''Coda'') = [60]"
    by code_simp
  show ?thesis
    using handle_rate_limit_other_status
      [of "\<lparr>status_code = 200, resp_text = ''{}'', json = Some (PyDict []), headers = []\<rparr>"
          "''Coda''"]
      handle_rate_limit_other_status
      [of "\<lparr>status_code = 429, resp_text = ''{}'', json = Some (PyDict []), headers = []\<rparr>"
          "''Coda''"]
      c
    by simp
qed

end
